theory Spec2Isabelle
  imports Complex_Main "HOL-Library.Word"
begin

section \<open>Go values and standard-library functions used by main.go\<close>

text \<open>
  A Go \<open>string\<close> is a byte string: \<open>string\<close> here. A Go \<open>int\<close> is a 64-bit signed
  integer; the counters, indices and frequencies of the program are modelled as \<open>int\<close>
  and stay far inside that range (they are bounded by the length of a slice or come
  out of \<open>strconv.Atoi\<close>, which rejects anything outside it). \<open>time.Duration\<close> is an
  \<open>int64\<close> whose product does wrap in this program: it is a \<open>64 word\<close>.
\<close>

subsection \<open>float32 and its comparison\<close>

text \<open>
  Only \<open>\<le>\<close> is ever applied to a price. A \<open>float32\<close> is a finite value (a real
  number; \<open>+0\<close> and \<open>-0\<close> compare equal), an infinity or a NaN; every comparison with
  a NaN is false.
\<close>

datatype float32 = Finite real | PosInf | NegInf | NaN

fun f32_le :: "float32 \<Rightarrow> float32 \<Rightarrow> bool" where
  "f32_le NaN y = False"
| "f32_le (Finite a) (Finite b) = (a \<le> b)"
| "f32_le (Finite a) PosInf = True"
| "f32_le (Finite a) NegInf = False"
| "f32_le (Finite a) NaN = False"
| "f32_le PosInf (Finite b) = False"
| "f32_le PosInf PosInf = True"
| "f32_le PosInf NegInf = False"
| "f32_le PosInf NaN = False"
| "f32_le NegInf (Finite b) = True"
| "f32_le NegInf PosInf = True"
| "f32_le NegInf NegInf = True"
| "f32_le NegInf NaN = False"

subsection \<open>Decimal rendering: the verb \<open>%d\<close> of fmt, and strconv.Itoa\<close>

definition digit_char :: "nat \<Rightarrow> char" where
  "digit_char d = ''0123456789'' ! d"

fun natstr :: "nat \<Rightarrow> string" where
  "natstr n = (if n < 10 then [digit_char n] else natstr (n div 10) @ [digit_char (n mod 10)])"

declare natstr.simps [simp del]

definition itoa :: "int \<Rightarrow> string" where
  "itoa n = (if n < 0 then CHR ''-'' # natstr (nat (- n)) else natstr (nat n))"

text \<open>\<open>%0wd\<close>: the sign first, then zeros up to the width \<open>w\<close>, then the digits.\<close>

definition zero_pad :: "nat \<Rightarrow> int \<Rightarrow> string" where
  "zero_pad w n =
     (let sign = (if n < 0 then ''-'' else '''');
          ds = natstr (nat \<bar>n\<bar>)
      in sign @ replicate (w - length sign - length ds) (CHR ''0'') @ ds)"

subsection \<open>strconv.Atoi\<close>

text \<open>
  An optional sign, then one or more decimal digits (the bytes 48 to 57), and the
  value must fit a 64-bit \<open>int\<close>. The caller only tests \<open>err == nil\<close>, so the two errors of Atoi (syntax and
  range) are one \<open>None\<close>.
\<close>

definition digit_of :: "char \<Rightarrow> nat option" where
  "digit_of c =
     (if 48 \<le> (of_char c :: nat) \<and> (of_char c :: nat) \<le> 57
      then Some (of_char c - 48) else None)"

fun dec_value :: "nat \<Rightarrow> string \<Rightarrow> nat option" where
  "dec_value n [] = Some n"
| "dec_value n (c # cs) =
     (case digit_of c of None \<Rightarrow> None | Some d \<Rightarrow> dec_value (n * 10 + d) cs)"

definition Atoi :: "string \<Rightarrow> int option" where
  "Atoi s =
     (let neg = (case s of [] \<Rightarrow> False | c # cs \<Rightarrow> c = CHR ''-'');
          ds = (case s of [] \<Rightarrow> []
                | c # cs \<Rightarrow> if c = CHR ''-'' \<or> c = CHR ''+'' then cs else s)
      in if ds = [] then None
         else (case dec_value 0 ds of
                 None \<Rightarrow> None
               | Some u \<Rightarrow>
                   (let n = (if neg then - int u else int u)
                    in if - (2 ^ 63) \<le> n \<and> n < 2 ^ 63 then Some n else None)))"

subsection \<open>strings.Split and strings.TrimSpace\<close>

text \<open>
  \<open>strings.Split(s, sep)\<close> for a separator of one byte (the program splits at
  \<open>" "\<close>): the substrings between the separators, empty ones included.
\<close>

fun Split :: "string \<Rightarrow> char \<Rightarrow> string list" where
  "Split [] sep = [[]]"
| "Split (c # cs) sep =
     (if c = sep then [] # Split cs sep
      else (case Split cs sep of [] \<Rightarrow> [[c]] | t # ts \<Rightarrow> (c # t) # ts))"

definition TAB :: string where
  "TAB = [CHR 0x09]"

definition is_space :: "char \<Rightarrow> bool" where
  "is_space c = (c = CHR '' '' \<or> c = CHR 0x09 \<or> c = CHR 0x0A \<or> c = CHR 0x0B
                 \<or> c = CHR 0x0C \<or> c = CHR 0x0D)"

text \<open>
  \<open>strings.TrimSpace\<close> on ASCII white space. (Go also trims the multi-byte Unicode
  spaces; the payloads it is applied to start with a line break and a tab before
  \<open><?xml\<close> and end with \<open>>\<close>.)
\<close>

definition TrimSpace :: "string \<Rightarrow> string" where
  "TrimSpace s = rev (dropWhile is_space (rev (dropWhile is_space s)))"

subsection \<open>Instants, durations and the calendar\<close>

text \<open>
  An instant is a number of nanoseconds since the Unix epoch. A location (what
  \<open>time.LoadLocation\<close> returns) gives the offset from UTC, in seconds, in force at a
  Unix second. \<open>Time.Hour\<close> and \<open>Time.Date\<close> read the proleptic Gregorian calendar
  at the local time.
\<close>

type_synonym Duration = "64 word"

type_synonym Location = "int \<Rightarrow> int"

definition time_Hour :: Duration where
  "time_Hour = 3600000000000"

definition time_Add :: "int \<Rightarrow> Duration \<Rightarrow> int" where
  "time_Add t d = t + sint d"

definition local_seconds :: "Location \<Rightarrow> int \<Rightarrow> int" where
  "local_seconds loc t = t div 1000000000 + loc (t div 1000000000)"

definition time_HourOf :: "Location \<Rightarrow> int \<Rightarrow> int" where
  "time_HourOf loc t = (local_seconds loc t mod 86400) div 3600"

text \<open>
  The civil date of a day number (days since 1970-01-01), in stages: the 400-year era
  and the day of the era, the year of the era, the day of the year (years starting
  in March), the month.
\<close>

definition civil_ymd :: "int \<Rightarrow> int \<Rightarrow> int \<Rightarrow> int \<times> int \<times> int" where
  "civil_ymd y0 doy mp =
     (if mp < 10 then (y0, mp + 3, doy - (153 * mp + 2) div 5 + 1)
      else (y0 + 1, mp - 9, doy - (153 * mp + 2) div 5 + 1))"

definition civil_doy :: "int \<Rightarrow> int \<Rightarrow> int \<times> int \<times> int" where
  "civil_doy y0 doy = civil_ymd y0 doy ((5 * doy + 2) div 153)"

definition civil_yoe :: "int \<Rightarrow> int \<Rightarrow> int \<Rightarrow> int \<times> int \<times> int" where
  "civil_yoe era doe yoe =
     civil_doy (yoe + era * 400) (doe - (365 * yoe + yoe div 4 - yoe div 100))"

definition civil_doe :: "int \<Rightarrow> int \<Rightarrow> int \<times> int \<times> int" where
  "civil_doe era doe =
     civil_yoe era doe ((doe - doe div 1460 + doe div 36524 - doe div 146096) div 365)"

definition civil_from_days :: "int \<Rightarrow> int \<times> int \<times> int" where
  "civil_from_days z = civil_doe ((z + 719468) div 146097) ((z + 719468) mod 146097)"

definition time_Date :: "Location \<Rightarrow> int \<Rightarrow> int \<times> int \<times> int" where
  "time_Date loc t = civil_from_days (local_seconds loc t div 86400)"

section \<open>The program's data\<close>

record Times =
  startDate :: string
  endDate :: string
  startHour :: string
  endHour :: string

text \<open>
  The three response structs nest \<open>Envelope / Body / ...Response / Result\<close> around a
  slice of records; the nesting only mirrors the XML path, and a decoded document is
  modelled by that slice. The daily and the intraday record have the same fields.
\<close>

record Item =
  Date :: string
  Hour :: int
  Price :: float32
  Volume :: float32

record DamIndex =
  DamIndex_Date :: string
  EurRate :: float32
  BaseLoad :: float32
  PeakLoad :: float32
  OffpeakLoad :: float32
  Emerg :: int

type_synonym ElectricityDailyForAgentureTrade = "Item list"

type_synonym ElectricityDayAheadTrade = "DamIndex list"

type_synonym ElectricityIntraDayTrade = "Item list"

text \<open>The two package variables that \<open>getEnvironmentVariables\<close> sets.\<close>

record globals =
  hoursInThePast :: Duration
  wsdlService :: string

section \<open>The outside world and the trace of a run\<close>

record request =
  reqMethod :: string
  reqURL :: string
  reqContentType :: string
  reqSOAPAction :: string
  reqBody :: string

record response =
  Status :: string
  Body :: string

text \<open>The arguments of a logger call, kept as passed (the verbs are not rendered).\<close>

datatype arg = S string | I int | F float32 | Resp response

text \<open>
  What a run does, in order: the logger calls (format and arguments), the calls of
  \<open>GetImPriceE\<close> with their four arguments, the HTTP requests handed to
  \<open>client.Do\<close>, and the calls of \<open>os.WriteFile\<close> (path and data).
\<close>

datatype event =
    LogInfo string "arg list"
  | LogError string "arg list"
  | CallGetImPriceE string string string string
  | HttpPost request
  | OsWriteFile string string

text \<open>
  Everything the program asks of its environment. The network and the file system may
  answer differently from call to call: their answers depend on the trace so far.
  An error is its message. \<open>xml_Decode_...\<close> is \<open>xml.NewDecoder(body).Decode\<close> into
  the struct of that name.
\<close>

record world =
  os_Getenv :: "string \<Rightarrow> string"
  time_ParseDuration :: "string \<Rightarrow> string + Duration"
  time_LoadLocation :: "string \<Rightarrow> string + Location"
  time_Now :: int
  http_NewRequest :: "string \<Rightarrow> string \<Rightarrow> string option"
  client_Do :: "event list \<Rightarrow> request \<Rightarrow> string + response"
  xml_Decode_Daily :: "string \<Rightarrow> string + ElectricityDailyForAgentureTrade"
  xml_Decode_DayAhead :: "string \<Rightarrow> string + ElectricityDayAheadTrade"
  xml_Decode_IntraDay :: "string \<Rightarrow> string + ElectricityIntraDayTrade"
  os_Stat_NotExist :: "string \<Rightarrow> bool"
  os_ReadFile :: "string \<Rightarrow> string option"
  os_WriteFile :: "event list \<Rightarrow> string \<Rightarrow> string \<Rightarrow> string option"
  runtime_NumCPU :: int

text \<open>How a function that can stop the process ends: \<open>log.Fatalf\<close> or a run-time panic.\<close>

datatype abort = Fatal | IndexOutOfRange

section \<open>The program\<close>

subsection \<open>sendRequest and the three operations\<close>

definition sendRequest ::
  "world \<Rightarrow> globals \<Rightarrow> string \<Rightarrow> string \<Rightarrow> event list \<Rightarrow> response option \<times> event list" where
  "sendRequest w g soapAction payload tr =
     (case http_NewRequest w ''POST'' (wsdlService g) of
        Some e \<Rightarrow> (None, tr @ [LogError ''Error on creating request object: %s\<newline>'' [S e]])
      | None \<Rightarrow>
          (let req = \<lparr>reqMethod = ''POST'', reqURL = wsdlService g,
                      reqContentType = ''text/xml'', reqSOAPAction = soapAction,
                      reqBody = payload\<rparr>
           in case client_Do w tr req of
                Inl e \<Rightarrow>
                  (None, tr @ [HttpPost req,
                               LogError ''Error on dispatching request: %s\<newline>'' [S e]])
              | Inr res \<Rightarrow>
                  if Status res \<noteq> ''200 OK''
                  then (None, tr @ [HttpPost req,
                                    LogError ''Status %s on result: %s\<newline>''
                                      [S (Status res), Resp res]])
                  else (Some res, tr @ [HttpPost req])))"

text \<open>The opening lines that the three payload templates share.\<close>

definition envelope_open :: string where
  "envelope_open =
     ''\<newline>'' @ TAB @ ''<?xml version=\"1.0\" encoding=\"UTF-8\" ?>\<newline>''
     @ ''    <soapenv:Envelope\<newline>''
     @ ''       xmlns:soapenv=\"http://schemas.xmlsoap.org/soap/envelope/\"\<newline>''
     @ ''       xmlns:pub=\"http://www.ote-cr.cz/schema/service/public\">\<newline>''
     @ TAB @ TAB @ ''<soapenv:Header/>\<newline>''
     @ ''        <soapenv:Body>\<newline>''"

definition envelope_close :: string where
  "envelope_close =
     ''        </soapenv:Body>\<newline>''
     @ ''    </soapenv:Envelope>''"


definition GetDamIndexE_payload :: "string \<Rightarrow> string \<Rightarrow> string" where
  "GetDamIndexE_payload startDate' endDate' =
     TrimSpace (envelope_open
       @ ''            <pub:GetDamIndexE>\<newline>''
       @ TAB @ TAB @ TAB @ TAB @ ''<pub:StartDate>'' @ startDate' @ ''</pub:StartDate>\<newline>''
       @ TAB @ TAB @ TAB @ TAB @ ''<pub:EndDate>'' @ endDate' @ ''</pub:EndDate>\<newline>''
       @ ''            </pub:GetDamIndexE>\<newline>''
       @ envelope_close)"

definition GetImPriceE_payload :: "string \<Rightarrow> string \<Rightarrow> string \<Rightarrow> string \<Rightarrow> string" where
  "GetImPriceE_payload startDate' endDate' startHour' endHour' =
     TrimSpace (envelope_open
       @ ''            <pub:GetImPriceE>\<newline>''
       @ TAB @ TAB @ TAB @ TAB @ ''<pub:StartDate>'' @ startDate' @ ''</pub:StartDate>\<newline>''
       @ TAB @ TAB @ TAB @ TAB @ ''<pub:EndDate>'' @ endDate' @ ''</pub:EndDate>\<newline>''
       @ TAB @ TAB @ TAB @ TAB @ ''<pub:StartHour>'' @ startHour' @ ''</pub:StartHour>\<newline>''
       @ TAB @ TAB @ TAB @ TAB @ ''<pub:EndHour>'' @ endHour' @ ''</pub:EndHour>\<newline>''
       @ ''            </pub:GetImPriceE>\<newline>''
       @ envelope_close)"



fun parseGetDamIndexE_loop :: "DamIndex list \<Rightarrow> event list \<Rightarrow> event list" where
  "parseGetDamIndexE_loop [] tr = tr"
| "parseGetDamIndexE_loop (index # loadIndex) tr =
     parseGetDamIndexE_loop loadIndex
       (tr @ [LogInfo ''Date: %s BaseLoad: %f, PeakLoad: %f, OffPeakLoad: %f\<newline>''
                [S (DamIndex_Date index), F (BaseLoad index), F (PeakLoad index),
                 F (OffpeakLoad index)]])"

definition parseGetDamIndexE :: "world \<Rightarrow> response \<Rightarrow> event list \<Rightarrow> event list" where
  "parseGetDamIndexE w res tr =
     (case xml_Decode_DayAhead w (Body res) of
        Inl e \<Rightarrow> tr @ [LogInfo ''Error on unmarshaling xml: %s\<newline>'' [S e]]
      | Inr loadIndex \<Rightarrow> parseGetDamIndexE_loop loadIndex tr)"

fun extractPrices_loop ::
  "Item list \<Rightarrow> float32 list \<Rightarrow> event list \<Rightarrow> float32 list \<times> event list" where
  "extractPrices_loop [] prices tr = (prices, tr)"
| "extractPrices_loop (s # hourlyRate) prices tr =
     extractPrices_loop hourlyRate (prices @ [Price s])
       (tr @ [LogInfo ''Date: %s Hour: %d Price: %f Volume: %f\<newline>''
                [S (Date s), I (Hour s), F (Price s), F (Volume s)]])"

text \<open>The result is the slice of prices, the error (\<open>None\<close> for \<open>nil\<close>) and the trace.\<close>

definition extractPricesFromGetImPriceE ::
  "world \<Rightarrow> response \<Rightarrow> event list \<Rightarrow> float32 list \<times> string option \<times> event list" where
  "extractPricesFromGetImPriceE w res tr =
     (case xml_Decode_IntraDay w (Body res) of
        Inl e \<Rightarrow> ([], Some e, tr @ [LogError ''Error on unmarshaling xml: %s\<newline>'' [S e]])
      | Inr hourlyRate \<Rightarrow>
          (case extractPrices_loop hourlyRate [] tr of (prices, tr') \<Rightarrow> (prices, None, tr')))"


definition GetDamIndexE :: "world \<Rightarrow> globals \<Rightarrow> string \<Rightarrow> string \<Rightarrow> event list \<Rightarrow> event list" where
  "GetDamIndexE w g startDate' endDate' tr =
     (case sendRequest w g ''urn:GetDamIndexE'' (GetDamIndexE_payload startDate' endDate') tr of
        (None, tr') \<Rightarrow> tr'
      | (Some httpResponse, tr') \<Rightarrow> parseGetDamIndexE w httpResponse tr')"

definition GetImPriceE ::
  "world \<Rightarrow> globals \<Rightarrow> string \<Rightarrow> string \<Rightarrow> string \<Rightarrow> string \<Rightarrow> event list
     \<Rightarrow> response option \<times> event list" where
  "GetImPriceE w g startDate' endDate' startHour' endHour' tr =
     sendRequest w g ''urn:GetImPriceE''
       (GetImPriceE_payload startDate' endDate' startHour' endHour')
       (tr @ [CallGetImPriceE startDate' endDate' startHour' endHour'])"

subsection \<open>getTimeRange\<close>

definition format_date :: "int \<times> int \<times> int \<Rightarrow> string" where
  "format_date ymd =
     (case ymd of (y, m, d) \<Rightarrow> zero_pad 4 y @ ''-'' @ zero_pad 2 m @ ''-'' @ zero_pad 2 d)"

definition getTimeRange ::
  "world \<Rightarrow> globals \<Rightarrow> event list \<Rightarrow> (abort \<times> event list) + (Times \<times> event list)" where
  "getTimeRange w g tr =
     (case time_LoadLocation w ''Europe/Budapest'' of
        Inl e \<Rightarrow> Inl (Fatal, tr @ [LogError ''Error getting location: %s\<newline>'' [S e]])
      | Inr loc \<Rightarrow>
          (case (time_Now w, time_Add (time_Now w) (hoursInThePast g * time_Hour)) of
             (now, before) \<Rightarrow>
               Inr (\<lparr>startDate = format_date (time_Date loc before),
                     endDate = format_date (time_Date loc now),
                     startHour = itoa (time_HourOf loc before),
                     endHour = itoa (time_HourOf loc now)\<rparr>, tr)))"

subsection \<open>getElectrictyPrices\<close>

definition getElectrictyPrices ::
  "world \<Rightarrow> globals \<Rightarrow> Times \<Rightarrow> event list \<Rightarrow> float32 list \<times> event list" where
  "getElectrictyPrices w g times' tr0 =
     (case tr0 @ [LogInfo ''------- Function Call: GetImPriceE vnitrodenna cena-------'' []] of
        tr \<Rightarrow>
     if startDate times' \<noteq> endDate times' then
       (case GetImPriceE w g (startDate times') (startDate times') (startHour times') ''24'' tr of
          (None, tr1) \<Rightarrow> ([], tr1 @ [LogError ''HTTP Error, exiting.'' []])
        | (Some htr, tr1) \<Rightarrow>
            (case extractPricesFromGetImPriceE w htr tr1 of
               (prices1, err1, tr2) \<Rightarrow>
                 (case GetImPriceE w g (endDate times') (endDate times') ''0'' (endHour times')
                         (case err1 of
                            None \<Rightarrow> tr2
                          | Some e \<Rightarrow>
                              tr2 @ [LogInfo
                                ''Error getting prices from previous day, continuing on second.''
                                []]) of
                    (None, tr4) \<Rightarrow> ([], tr4 @ [LogError ''HTTP Error, exiting.'' []])
                  | (Some htr', tr4) \<Rightarrow>
                      (case extractPricesFromGetImPriceE w htr' tr4 of
                         (prices2, Some e, tr5) \<Rightarrow>
                           ([], tr5 @ [LogError ''Error getting prices from this day, exiting.'' []])
                       | (prices2, None, tr5) \<Rightarrow> (prices1 @ prices2, tr5)))))
     else
       (case GetImPriceE w g (startDate times') (endDate times') (startHour times')
               (endHour times') tr of
          (None, tr1) \<Rightarrow> ([], tr1 @ [LogError ''HTTP Error, exiting.'' []])
        | (Some htr, tr1) \<Rightarrow>
            (case extractPricesFromGetImPriceE w htr tr1 of
               (prices, Some e, tr2) \<Rightarrow>
                 (prices, tr2 @ [LogError ''Error getting prices from today, exiting.'' []])
             | (prices, None, tr2) \<Rightarrow> (prices, tr2))))"

subsection \<open>The control files\<close>

definition readFile :: "world \<Rightarrow> string \<Rightarrow> event list \<Rightarrow> string \<times> event list" where
  "readFile w path tr =
     (if os_Stat_NotExist w path
      then ('''', tr @ [LogError ''Path %s does not exist\<newline>'' [S path]])
      else (case os_ReadFile w path of
              None \<Rightarrow> ('''', tr @ [LogError ''Failed to open path %s\<newline>'' [S path]])
            | Some content \<Rightarrow> (content, tr)))"

text \<open>The result is the error (\<open>None\<close> for \<open>nil\<close>) and the trace.\<close>

definition writeFile ::
  "world \<Rightarrow> string \<Rightarrow> string \<Rightarrow> event list \<Rightarrow> string option \<times> event list" where
  "writeFile w path frequency tr =
     (case os_WriteFile w tr path frequency of
        Some e \<Rightarrow>
          (Some e, tr @ [OsWriteFile path frequency,
                         LogError ''Error writing frequency %s to path %s: %s\<newline>''
                           [S frequency, S path, S e]])
      | None \<Rightarrow> (None, tr @ [OsWriteFile path frequency]))"

definition getAvailableCPUFrequencies ::
  "world \<Rightarrow> string \<Rightarrow> event list \<Rightarrow> string list \<times> event list" where
  "getAvailableCPUFrequencies w path tr =
     (case readFile w path tr of
        (fc, tr') \<Rightarrow> if fc = '''' then ([], tr') else (Split fc (CHR '' ''), tr'))"

subsection \<open>scaleCPUFrequency\<close>

text \<open>Indexing a slice: out of range is a run-time panic.\<close>

definition elem_at :: "'a list \<Rightarrow> int \<Rightarrow> 'a option" where
  "elem_at xs i = (if 0 \<le> i \<and> i < int (length xs) then Some (xs ! nat i) else None)"

text \<open>The first loop: \<open>for i := 0; i < len(prices)-1; i++\<close>.\<close>

function trend_loop :: "float32 list \<Rightarrow> int \<Rightarrow> int \<Rightarrow> int \<Rightarrow> abort + (int \<times> int)" where
  "trend_loop prices i decs incs =
     (if i < int (length prices) - 1 then
        (case elem_at prices (i + 1) of
           None \<Rightarrow> Inl IndexOutOfRange
         | Some later \<Rightarrow>
             (case elem_at prices i of
                None \<Rightarrow> Inl IndexOutOfRange
              | Some earlier \<Rightarrow>
                  if f32_le later earlier then trend_loop prices (i + 1) (decs + 1) incs
                  else trend_loop prices (i + 1) decs (incs + 1)))
      else Inr (decs, incs))"
  by pat_completeness auto
termination
  by (relation "measure (\<lambda>(prices, i, decs, incs). nat (int (length prices) - 1 - i))") auto

declare trend_loop.simps [simp del]

text \<open>The second loop: the range over \<open>frequencies\<close>.\<close>

fun minmax_loop :: "string list \<Rightarrow> int \<Rightarrow> int \<Rightarrow> int \<times> int" where
  "minmax_loop [] minF maxF = (minF, maxF)"
| "minmax_loop (frequency # frequencies) minF maxF =
     (case Atoi frequency of
        None \<Rightarrow> minmax_loop frequencies minF maxF
      | Some f \<Rightarrow>
          minmax_loop frequencies (if f < minF then f else minF) (if f > maxF then f else maxF))"

definition scalingMaxFreqPath :: "int \<Rightarrow> string" where
  "scalingMaxFreqPath i =
     ''/sys/devices/system/cpu/cpu'' @ itoa i @ ''/cpufreq/scaling_max_freq''"

text \<open>
  The loop of either branch, \<open>for i := 0; i < runtime.NumCPU()-1; i++\<close>, with the
  frequency \<open>f\<close> that the branch writes (\<open>minF\<close> or \<open>maxF\<close>).
\<close>

function scale_loop :: "world \<Rightarrow> int \<Rightarrow> int \<Rightarrow> event list \<Rightarrow> event list" where
  "scale_loop w f i tr =
     (if i < runtime_NumCPU w - 1 then
        (case writeFile w (scalingMaxFreqPath i) (itoa f) tr of
           (Some e, tr') \<Rightarrow>
             scale_loop w f (i + 1)
               (tr' @ [LogInfo ''Not scaling cpu%d to frequency %d\<newline>'' [I i, I f]])
         | (None, tr') \<Rightarrow>
             scale_loop w f (i + 1)
               (tr' @ [LogInfo ''Scaling cpu%d to frequency %d\<newline>'' [I i, I f]]))
      else tr)"
  by pat_completeness auto
termination
  by (relation "measure (\<lambda>(w, f, i, tr). nat (runtime_NumCPU w - 1 - i))") auto

declare scale_loop.simps [simp del]

definition scaleCPUFrequency ::
  "world \<Rightarrow> float32 list \<Rightarrow> event list \<Rightarrow> (abort \<times> event list) + event list" where
  "scaleCPUFrequency w prices tr =
     (case trend_loop prices 0 0 0 of
        Inl a \<Rightarrow> Inl (a, tr)
      | Inr (decs, incs) \<Rightarrow>
          (case getAvailableCPUFrequencies w
                  ''/sys/devices/system/cpu/cpu0/cpufreq/scaling_available_frequencies'' tr of
             (frequencies, tr1) \<Rightarrow>
               (case minmax_loop frequencies 10000000 0 of
                  (minF, maxF) \<Rightarrow>
                    if decs < incs
                    then Inr (scale_loop w minF 0
                           (tr1 @ [LogInfo ''Prices are increasing over the last three hours'' []]))
                    else Inr (scale_loop w maxF 0
                           (tr1 @ [LogInfo ''Prices are decreasing over the last three hours.'' []])))))"

subsection \<open>getEnvironmentVariables and main\<close>

definition getEnvironmentVariables :: "world \<Rightarrow> event list \<Rightarrow> globals \<times> event list" where
  "getEnvironmentVariables w tr =
     (case (if length (os_Getenv w ''HOURS'') = 0 then (- 3, tr)
            else (case time_ParseDuration w (os_Getenv w ''HOURS'') of
                    Inr d \<Rightarrow> (d, tr)
                  | Inl e \<Rightarrow>
                      (- 3, tr @ [LogInfo ''Error parsing hours %s to duration. Setting -3.\<newline>''
                                   [S (os_Getenv w ''HOURS'')]]))) of
        (hours, tr') \<Rightarrow>
          (\<lparr>hoursInThePast = hours,
            wsdlService =
              (if length (os_Getenv w ''WSDL'') = 0
               then ''https://www.ote-cr.cz/services/PublicDataService''
               else os_Getenv w ''WSDL'')\<rparr>, tr'))"

definition main :: "world \<Rightarrow> (abort \<times> event list) + event list" where
  "main w =
     (case getEnvironmentVariables w [] of
        (g, tr) \<Rightarrow>
          (case getTimeRange w g tr of
             Inl a \<Rightarrow> Inl a
           | Inr (times', tr1) \<Rightarrow>
               (case getElectrictyPrices w g times' tr1 of
                  (prices, tr2) \<Rightarrow> scaleCPUFrequency w prices tr2)))"

section \<open>Reading a trace, and the classification in the specification's words\<close>

fun writes_of :: "event list \<Rightarrow> (string \<times> string) list" where
  "writes_of [] = []"
| "writes_of (OsWriteFile path data # tr) = (path, data) # writes_of tr"
| "writes_of (LogInfo fmt args # tr) = writes_of tr"
| "writes_of (LogError fmt args # tr) = writes_of tr"
| "writes_of (CallGetImPriceE a b c d # tr) = writes_of tr"
| "writes_of (HttpPost req # tr) = writes_of tr"

fun fetches_of :: "event list \<Rightarrow> (string \<times> string \<times> string \<times> string) list" where
  "fetches_of [] = []"
| "fetches_of (CallGetImPriceE a b c d # tr) = (a, b, c, d) # fetches_of tr"
| "fetches_of (LogInfo fmt args # tr) = fetches_of tr"
| "fetches_of (LogError fmt args # tr) = fetches_of tr"
| "fetches_of (HttpPost req # tr) = fetches_of tr"
| "fetches_of (OsWriteFile path data # tr) = fetches_of tr"

text \<open>
  The specification's classification: over each adjacent pair of the series, a decrease
  when the later value is less than or equal to the earlier one, an increase otherwise.
\<close>

definition adjacent_pairs :: "'a list \<Rightarrow> ('a \<times> 'a) list" where
  "adjacent_pairs xs = zip xs (tl xs)"

definition decreases :: "float32 list \<Rightarrow> nat" where
  "decreases prices =
     length (filter (\<lambda>(earlier, later). f32_le later earlier) (adjacent_pairs prices))"

definition increases :: "float32 list \<Rightarrow> nat" where
  "increases prices =
     length (filter (\<lambda>(earlier, later). \<not> f32_le later earlier) (adjacent_pairs prices))"

text \<open>
  The specification's "successfully parsed integer entries" of the capability file:
  the tokens that \<open>strconv.Atoi\<close> accepts, in order.
\<close>

fun parsed_entries :: "string list \<Rightarrow> int list" where
  "parsed_entries [] = []"
| "parsed_entries (s # ss) =
     (case Atoi s of None \<Rightarrow> parsed_entries ss | Some f \<Rightarrow> f # parsed_entries ss)"

definition scalingAvailableFrequenciesFile :: string where
  "scalingAvailableFrequenciesFile =
     ''/sys/devices/system/cpu/cpu0/cpufreq/scaling_available_frequencies''"


section \<open>The decoder\<close>











section \<open>Concrete hosts\<close>

subsection \<open>An example host\<close>

text \<open>
  The offsets of Europe/Budapest at the instants the examples read: summer time (two
  hours east of UTC) in July 2024, standard time (one hour) from 2010-10-31 01:00 UTC
  to 2011-03-27 01:00 UTC.
\<close>

definition example_zone :: Location where
  "example_zone s = (if 1288486800 \<le> s \<and> s < 1301187600 then 3600 else 7200)"

text \<open>
  A host with four cores whose capability file reads \<open>800000 1200000 1600000\<close>, no
  environment variable set, the clock at 2024-07-15 12:00:00 UTC (14:00 in Budapest),
  a service that answers every request with an empty list of records, and control
  files that accept every write. The concrete runs below change one field of it at a
  time.
\<close>

definition example_host :: world where
  "example_host =
     \<lparr>os_Getenv = (\<lambda>name. ''''),
      time_ParseDuration = (\<lambda>s. Inl ''time: invalid duration''),
      time_LoadLocation = (\<lambda>name. Inr example_zone),
      time_Now = 1721044800000000000,
      http_NewRequest = (\<lambda>method url. None),
      client_Do = (\<lambda>tr req. Inr \<lparr>Status = ''200 OK'', Body = ''''\<rparr>),
      xml_Decode_Daily = (\<lambda>body. Inr []),
      xml_Decode_DayAhead = (\<lambda>body. Inr []),
      xml_Decode_IntraDay = (\<lambda>body. Inr []),
      os_Stat_NotExist = (\<lambda>path. False),
      os_ReadFile = (\<lambda>path. Some ''800000 1200000 1600000''),
      os_WriteFile = (\<lambda>tr path data. None),
      runtime_NumCPU = 4\<rparr>"

text \<open>
  The variables as \<open>getEnvironmentVariables\<close> leaves them on that host, a window
  within one day and a window over midnight, and a service that answers the first call
  of a run with two records of the earlier day and every later call with one record of
  the later day.
\<close>

definition example_globals :: globals where
  "example_globals =
     \<lparr>hoursInThePast = - 3,
      wsdlService = ''https://www.ote-cr.cz/services/PublicDataService''\<rparr>"

definition one_day_window :: Times where
  "one_day_window =
     \<lparr>startDate = ''2024-07-15'', endDate = ''2024-07-15'',
      startHour = ''11'', endHour = ''14''\<rparr>"

definition two_day_window :: Times where
  "two_day_window =
     \<lparr>startDate = ''2024-07-14'', endDate = ''2024-07-15'',
      startHour = ''23'', endHour = ''2''\<rparr>"

definition earlier_day_items :: "Item list" where
  "earlier_day_items =
     [\<lparr>Date = ''2024-07-14'', Hour = 23, Price = Finite 50, Volume = Finite 10\<rparr>,
      \<lparr>Date = ''2024-07-14'', Hour = 24, Price = Finite 40, Volume = Finite 12\<rparr>]"

definition later_day_items :: "Item list" where
  "later_day_items =
     [\<lparr>Date = ''2024-07-15'', Hour = 1, Price = Finite 60, Volume = Finite 8\<rparr>]"

definition example_service :: world where
  "example_service =
     example_host
       \<lparr>client_Do :=
          (\<lambda>tr req. Inr \<lparr>Status = ''200 OK'',
                           Body = (if length (fetches_of tr) \<le> 1 then ''<earlier/>''
                                   else ''<later/>'')\<rparr>),
        xml_Decode_IntraDay :=
          (\<lambda>body. if body = ''<earlier/>'' then Inr earlier_day_items
                   else if body = ''<later/>'' then Inr later_day_items
                   else Inl ''EOF'')\<rparr>"


section \<open>The trend classification\<close>

lemma adjacent_pairs_Cons2: "adjacent_pairs (a # b # r) = (a, b) # adjacent_pairs (b # r)"
  by (simp add: adjacent_pairs_def)

lemma adjacent_pairs_short: "length xs \<le> 1 \<Longrightarrow> adjacent_pairs xs = []"
  by (cases xs) (auto simp: adjacent_pairs_def)

lemma trend_loop_counts:
  "trend_loop prices (int k) decs incs =
     Inr (decs + int (decreases (drop k prices)), incs + int (increases (drop k prices)))"
proof (induction "length prices - k" arbitrary: k decs incs)
  case 0
  then have short: "length (drop k prices) \<le> 1" by simp
  have "\<not> int k < int (length prices) - 1" using 0 by linarith
  then show ?case
    by (simp add: trend_loop.simps [of prices "int k"] decreases_def increases_def
        adjacent_pairs_short [OF short])
next
  case (Suc n)
  show ?case
  proof (cases "int k < int (length prices) - 1")
    case False
    then have short: "length (drop k prices) \<le> 1" by simp
    from False show ?thesis
      by (simp add: trend_loop.simps [of prices "int k"] decreases_def increases_def
          adjacent_pairs_short [OF short])
  next
    case True
    then have k1: "Suc k < length prices" by linarith
    then have k0: "k < length prices" by simp
    have d0: "drop k prices = prices ! k # drop (Suc k) prices"
      using k0 by (simp add: Cons_nth_drop_Suc)
    have d1: "drop (Suc k) prices = prices ! Suc k # drop (Suc (Suc k)) prices"
      using k1 by (simp add: Cons_nth_drop_Suc)
    have e1: "elem_at prices (int (Suc k)) = Some (prices ! Suc k)"
      using k1 by (simp add: elem_at_def del: of_nat_Suc)
    have e0: "elem_at prices (int k) = Some (prices ! k)"
      using k0 by (simp add: elem_at_def)
    have n: "n = length prices - Suc k" using Suc.hyps(2) by simp
    have step: "int k + 1 = int (Suc k)" by simp
    have "adjacent_pairs (drop k prices) =
        adjacent_pairs (prices ! k # prices ! Suc k # drop (Suc (Suc k)) prices)"
      using d0 d1 by simp
    also have "\<dots> = (prices ! k, prices ! Suc k) #
        adjacent_pairs (prices ! Suc k # drop (Suc (Suc k)) prices)"
      by (rule adjacent_pairs_Cons2)
    finally have pairs: "adjacent_pairs (drop k prices) =
        (prices ! k, prices ! Suc k) # adjacent_pairs (drop (Suc k) prices)"
      using d1 by simp
    have unf: "trend_loop prices (int k) decs incs =
        (if f32_le (prices ! Suc k) (prices ! k)
         then trend_loop prices (int (Suc k)) (decs + 1) incs
         else trend_loop prices (int (Suc k)) decs (incs + 1))"
      apply (subst trend_loop.simps)
      apply (simp only: step e0 e1 True if_True option.case)
      done
    show ?thesis
      unfolding unf
      by (simp add: Suc.hyps(1) [OF n] decreases_def increases_def pairs del: of_nat_Suc)
  qed
qed

lemma trend_loop_total:
  "trend_loop prices 0 0 0 = Inr (int (decreases prices), int (increases prices))"
  using trend_loop_counts [of prices 0 0 0] by simp

section \<open>Decimal strings\<close>

lemma digit_of_digit_char: "d < 10 \<Longrightarrow> digit_of (digit_char d) = Some d"
  by (auto simp: eval_nat_numeral less_Suc_eq digit_of_def digit_char_def)

lemma dec_value_snoc:
  "dec_value a (s @ [c]) =
     (case dec_value a s of
        None \<Rightarrow> None
      | Some v \<Rightarrow> (case digit_of c of None \<Rightarrow> None | Some d \<Rightarrow> Some (v * 10 + d)))"
  by (induction s arbitrary: a) (auto split: option.splits)

lemma dec_value_natstr: "dec_value 0 (natstr n) = Some n"
proof (induction n rule: natstr.induct)
  case (1 n)
  show ?case
  proof (cases "n < 10")
    case True
    then show ?thesis
      by (subst natstr.simps) (simp add: digit_of_digit_char)
  next
    case False
    have "dec_value 0 (natstr (n div 10)) = Some (n div 10)"
      using 1 False by simp
    then show ?thesis
      using False by (subst natstr.simps) (simp add: dec_value_snoc digit_of_digit_char)
  qed
qed

lemma natstr_inj: "natstr a = natstr b \<Longrightarrow> a = b"
proof -
  assume eq: "natstr a = natstr b"
  have "Some a = dec_value 0 (natstr a)" by (simp only: dec_value_natstr)
  also have "\<dots> = dec_value 0 (natstr b)" by (simp only: eq)
  also have "\<dots> = Some b" by (simp only: dec_value_natstr)
  finally show ?thesis by simp
qed

lemma natstr_not_Nil: "natstr n \<noteq> []"
  by (subst natstr.simps) simp

lemma natstr_hd_digit: "digit_of (hd (natstr n)) \<noteq> None"
proof -
  obtain c cs where cs: "natstr n = c # cs"
    using natstr_not_Nil [of n] by (cases "natstr n") auto
  with dec_value_natstr [of n] show ?thesis
    by (auto split: option.splits)
qed

lemma itoa_inj: "itoa a = itoa b \<Longrightarrow> a = b"
proof -
  assume eq: "itoa a = itoa b"
  have minus: "digit_of (CHR ''-'') = None" by (simp add: digit_of_def)
  have neg_pos: False if "x < 0" "0 \<le> y" "itoa x = itoa y" for x y
  proof -
    from that have "CHR ''-'' # natstr (nat (- x)) = natstr (nat y)"
      by (simp add: itoa_def)
    then have "hd (natstr (nat y)) = CHR ''-''"
      by (metis list.sel(1))
    with natstr_hd_digit [of "nat y"] minus show False by simp
  qed
  show ?thesis
  proof (cases "a < 0")
    case a: True
    show ?thesis
    proof (cases "b < 0")
      case True
      with a eq have "natstr (nat (- a)) = natstr (nat (- b))" by (simp add: itoa_def)
      then have "nat (- a) = nat (- b)" by (rule natstr_inj)
      with a True show ?thesis by linarith
    next
      case False
      with a eq neg_pos [of a b] show ?thesis by simp
    qed
  next
    case a: False
    show ?thesis
    proof (cases "b < 0")
      case True
      with a eq neg_pos [of b a] show ?thesis by simp
    next
      case False
      with a eq have "natstr (nat a) = natstr (nat b)" by (simp add: itoa_def)
      then have "nat a = nat b" by (rule natstr_inj)
      with a False show ?thesis by linarith
    qed
  qed
qed

lemma scalingMaxFreqPath_inj: "scalingMaxFreqPath i = scalingMaxFreqPath j \<Longrightarrow> i = j"
  by (rule itoa_inj) (simp add: scalingMaxFreqPath_def)

lemma Atoi_itoa:
  assumes "- (2 ^ 63) \<le> n" and "n < 2 ^ 63"
  shows "Atoi (itoa n) = Some n"
proof (cases "n < 0")
  case True
  have "dec_value 0 (natstr (nat (- n))) = Some (nat (- n))" by (rule dec_value_natstr)
  with True assms show ?thesis
    by (simp add: Atoi_def itoa_def natstr_not_Nil)
next
  case False
  obtain c cs where cs: "natstr (nat n) = c # cs"
    using natstr_not_Nil [of "nat n"] by (cases "natstr (nat n)") auto
  have "digit_of c \<noteq> None" using natstr_hd_digit [of "nat n"] cs by simp
  then have c: "c \<noteq> CHR ''-''" "c \<noteq> CHR ''+''"
    by (auto simp: digit_of_def)
  have "dec_value 0 (c # cs) = Some (nat n)"
    using dec_value_natstr [of "nat n"] cs by simp
  with False assms c cs show ?thesis
    by (simp add: Atoi_def itoa_def)
qed

section \<open>Traces\<close>

lemma writes_of_append: "writes_of (a @ b) = writes_of a @ writes_of b"
  by (induction a rule: writes_of.induct) auto

lemma fetches_of_append: "fetches_of (a @ b) = fetches_of a @ fetches_of b"
  by (induction a rule: fetches_of.induct) auto

lemma writeFile_trace:
  "writeFile w path frequency tr = (r, tr') \<Longrightarrow>
     writes_of tr' = writes_of tr @ [(path, frequency)] \<and> set tr \<subseteq> set tr'"
  by (auto simp: writeFile_def writes_of_append split: option.splits)

lemma readFile_trace:
  "readFile w path tr = (fc, tr') \<Longrightarrow> writes_of tr' = writes_of tr"
  by (auto simp: readFile_def writes_of_append split: option.splits if_splits)

lemma getAvailableCPUFrequencies_trace:
  "getAvailableCPUFrequencies w path tr = (fs, tr') \<Longrightarrow> writes_of tr' = writes_of tr"
  by (auto simp: getAvailableCPUFrequencies_def split: prod.splits if_splits
      dest: readFile_trace)

section \<open>The loop over the cores\<close>

lemma scale_loop_step:
  assumes "i < runtime_NumCPU w - 1"
    and "writeFile w (scalingMaxFreqPath i) (itoa f) tr = (r, tr')"
  shows "scale_loop w f i tr =
     scale_loop w f (i + 1)
       (tr' @ [LogInfo (case r of None \<Rightarrow> ''Scaling cpu%d to frequency %d\<newline>''
                        | Some e \<Rightarrow> ''Not scaling cpu%d to frequency %d\<newline>'')
                 [I i, I f]])"
  using assms by (subst scale_loop.simps) (simp split: option.splits)

lemma scale_loop_done:
  "\<not> i < runtime_NumCPU w - 1 \<Longrightarrow> scale_loop w f i tr = tr"
  by (subst scale_loop.simps) simp

lemma writes_scale_loop:
  "0 \<le> i \<Longrightarrow>
     writes_of (scale_loop w f i tr) =
       writes_of tr @
       map (\<lambda>k. (scalingMaxFreqPath (int k), itoa f)) [nat i..<nat (runtime_NumCPU w - 1)]"
proof (induction "nat (runtime_NumCPU w - 1 - i)" arbitrary: i tr)
  case 0
  then have "\<not> i < runtime_NumCPU w - 1" by linarith
  then show ?case by (simp add: scale_loop_done)
next
  case (Suc n)
  then have lt: "i < runtime_NumCPU w - 1" by linarith
  obtain r tr' where wf: "writeFile w (scalingMaxFreqPath i) (itoa f) tr = (r, tr')"
    by (cases "writeFile w (scalingMaxFreqPath i) (itoa f) tr") auto
  have wr: "writes_of tr' = writes_of tr @ [(scalingMaxFreqPath i, itoa f)]"
    using writeFile_trace [OF wf] by simp
  have n: "n = nat (runtime_NumCPU w - 1 - (i + 1))" using Suc.hyps(2) by linarith
  have i1: "0 \<le> i + 1" using Suc.prems by simp
  have upt: "[nat i..<nat (runtime_NumCPU w - 1)] =
      nat i # [nat (i + 1)..<nat (runtime_NumCPU w - 1)]"
    using lt Suc.prems by (simp add: upt_conv_Cons nat_add_distrib)
  show ?case
    unfolding scale_loop_step [OF lt wf] Suc.hyps(1) [OF n i1]
    using Suc.prems by (simp add: wr upt writes_of_append)
qed

lemma scale_loop_grows: "set tr \<subseteq> set (scale_loop w f i tr)"
proof (induction "nat (runtime_NumCPU w - 1 - i)" arbitrary: i tr)
  case 0
  then have "\<not> i < runtime_NumCPU w - 1" by linarith
  then show ?case by (simp add: scale_loop_done)
next
  case (Suc n)
  then have lt: "i < runtime_NumCPU w - 1" by linarith
  obtain r tr' where wf: "writeFile w (scalingMaxFreqPath i) (itoa f) tr = (r, tr')"
    by (cases "writeFile w (scalingMaxFreqPath i) (itoa f) tr") auto
  have n: "n = nat (runtime_NumCPU w - 1 - (i + 1))" using Suc.hyps(2) by linarith
  define m where "m = LogInfo (case r of None \<Rightarrow> ''Scaling cpu%d to frequency %d\<newline>''
                        | Some e \<Rightarrow> ''Not scaling cpu%d to frequency %d\<newline>'')
                 [I i, I f]"
  have "set tr \<subseteq> set tr'" using writeFile_trace [OF wf] by simp
  also have "\<dots> \<subseteq> set (tr' @ [m])" by auto
  also have "\<dots> \<subseteq> set (scale_loop w f (i + 1) (tr' @ [m]))"
    by (rule Suc.hyps(1) [OF n])
  finally show ?case
    unfolding scale_loop_step [OF lt wf] m_def .
qed

text \<open>A write that fails is logged twice: by \<open>writeFile\<close> and by the loop.\<close>

lemma scale_loop_logs_failure:
  assumes "\<forall>tr'. os_WriteFile w tr' (scalingMaxFreqPath k) (itoa f) = Some e"
    and "i \<le> k" and "k < runtime_NumCPU w - 1"
  shows "LogError ''Error writing frequency %s to path %s: %s\<newline>''
           [S (itoa f), S (scalingMaxFreqPath k), S e] \<in> set (scale_loop w f i tr)
       \<and> LogInfo ''Not scaling cpu%d to frequency %d\<newline>'' [I k, I f]
           \<in> set (scale_loop w f i tr)"
  using assms(2)
proof (induction "nat (k - i)" arbitrary: i tr)
  case 0
  then have ik: "i = k" by linarith
  have wf: "writeFile w (scalingMaxFreqPath k) (itoa f) tr =
      (Some e, tr @ [OsWriteFile (scalingMaxFreqPath k) (itoa f),
                     LogError ''Error writing frequency %s to path %s: %s\<newline>''
                       [S (itoa f), S (scalingMaxFreqPath k), S e]])"
    using assms(1) by (simp add: writeFile_def)
  show ?case
    unfolding ik scale_loop_step [OF assms(3) wf]
    using scale_loop_grows [of "(tr @ [OsWriteFile (scalingMaxFreqPath k) (itoa f),
                     LogError ''Error writing frequency %s to path %s: %s\<newline>''
                       [S (itoa f), S (scalingMaxFreqPath k), S e]]) @
                  [LogInfo ''Not scaling cpu%d to frequency %d\<newline>'' [I k, I f]]"
               w f "k + 1"]
    by auto
next
  case (Suc n)
  then have lt: "i < runtime_NumCPU w - 1" using assms(3) by linarith
  obtain r tr' where wf: "writeFile w (scalingMaxFreqPath i) (itoa f) tr = (r, tr')"
    by (cases "writeFile w (scalingMaxFreqPath i) (itoa f) tr") auto
  have n: "n = nat (k - (i + 1))" using Suc.hyps(2) by linarith
  have le: "i + 1 \<le> k" using Suc.hyps(2) by linarith
  show ?case
    unfolding scale_loop_step [OF lt wf] by (rule Suc.hyps(1) [OF n le])
qed

section \<open>The scan of the frequencies\<close>

lemma minmax_loop_fold:
  "minmax_loop fs mn mx =
     (fold min (parsed_entries fs) mn, fold max (parsed_entries fs) mx)"
  by (induction fs arbitrary: mn mx) (auto split: option.splits simp: min_def max_def)

lemma minmax_loop_Min_Max:
  "minmax_loop fs mn mx =
     (Min (set (mn # parsed_entries fs)), Max (set (mx # parsed_entries fs)))"
  by (simp only: minmax_loop_fold Min.set_eq_fold Max.set_eq_fold)

lemma minmax_loop_bounds:
  assumes "minmax_loop fs mn mx = (minF, maxF)" and "f \<in> set (parsed_entries fs)"
  shows "minF \<le> f" and "f \<le> maxF"
  using assms by (auto simp: minmax_loop_Min_Max)

lemma minmax_loop_mem:
  assumes "minmax_loop fs mn mx = (minF, maxF)"
  shows "minF \<in> insert mn (set (parsed_entries fs))"
    and "maxF \<in> insert mx (set (parsed_entries fs))"
proof -
  have "Min (set (mn # parsed_entries fs)) \<in> set (mn # parsed_entries fs)"
    by (rule Min_in) simp_all
  then show "minF \<in> insert mn (set (parsed_entries fs))"
    using assms by (simp add: minmax_loop_Min_Max)
  have "Max (set (mx # parsed_entries fs)) \<in> set (mx # parsed_entries fs)"
    by (rule Max_in) simp_all
  then show "maxF \<in> insert mx (set (parsed_entries fs))"
    using assms by (simp add: minmax_loop_Min_Max)
qed

lemma minmax_loop_none:
  "parsed_entries fs = [] \<Longrightarrow> minmax_loop fs mn mx = (mn, mx)"
  by (simp add: minmax_loop_fold)

lemma getAvailableCPUFrequencies_no_content:
  assumes "os_Stat_NotExist w path \<or> os_ReadFile w path = None \<or> os_ReadFile w path = Some ''''"
  shows "fst (getAvailableCPUFrequencies w path tr) = []"
  using assms
  by (auto simp: getAvailableCPUFrequencies_def readFile_def split: option.splits)

lemma getAvailableCPUFrequencies_content:
  assumes "\<not> os_Stat_NotExist w path" and "os_ReadFile w path = Some fc" and "fc \<noteq> ''''"
  shows "getAvailableCPUFrequencies w path tr = (Split fc (CHR '' ''), tr)"
  using assms
  by (simp add: getAvailableCPUFrequencies_def readFile_def)

lemma parsed_example:
  "parsed_entries (Split ''800000 1200000 1600000'' (CHR '' '')) = [800000, 1200000, 1600000]"
  by (simp add: Atoi_def digit_of_def)

lemma minmax_example:
  "minmax_loop (Split ''800000 1200000 1600000'' (CHR '' '')) 10000000 0 = (800000, 1600000)"
  by (simp add: Atoi_def digit_of_def)

section \<open>The scaler as a whole\<close>

lemma scaleCPUFrequency_eq:
  assumes "getAvailableCPUFrequencies w scalingAvailableFrequenciesFile tr = (frequencies, tr1)"
    and "minmax_loop frequencies 10000000 0 = (minF, maxF)"
  shows "scaleCPUFrequency w prices tr =
     Inr (if decreases prices < increases prices
          then scale_loop w minF 0
                 (tr1 @ [LogInfo ''Prices are increasing over the last three hours'' []])
          else scale_loop w maxF 0
                 (tr1 @ [LogInfo ''Prices are decreasing over the last three hours.'' []]))"
  using assms
  by (simp add: scaleCPUFrequency_def trend_loop_total scalingAvailableFrequenciesFile_def)

lemma scaleCPUFrequency_writes:
  assumes "getAvailableCPUFrequencies w scalingAvailableFrequenciesFile tr = (frequencies, tr1)"
    and "minmax_loop frequencies 10000000 0 = (minF, maxF)"
  shows "\<exists>tr'. scaleCPUFrequency w prices tr = Inr tr' \<and>
     writes_of tr' =
       writes_of tr @
       map (\<lambda>k. (scalingMaxFreqPath (int k),
                  itoa (if decreases prices < increases prices then minF else maxF)))
         [0..<nat (runtime_NumCPU w - 1)]"
  using getAvailableCPUFrequencies_trace [OF assms(1)]
  by (simp add: scaleCPUFrequency_eq [OF assms] writes_scale_loop writes_of_append)

lemma decreases_short: "length prices < 2 \<Longrightarrow> decreases prices = 0 \<and> increases prices = 0"
  by (simp add: decreases_def increases_def adjacent_pairs_short)

lemma example_host_frequencies:
  "getAvailableCPUFrequencies example_host scalingAvailableFrequenciesFile [] =
     (Split ''800000 1200000 1600000'' (CHR '' ''), [])"
  by (simp add: getAvailableCPUFrequencies_def readFile_def example_host_def)

lemma example_host_cores:
  "map (\<lambda>k. (scalingMaxFreqPath (int k), d)) [0..<nat (runtime_NumCPU example_host - 1)] =
     [(''/sys/devices/system/cpu/cpu0/cpufreq/scaling_max_freq'', d),
      (''/sys/devices/system/cpu/cpu1/cpufreq/scaling_max_freq'', d),
      (''/sys/devices/system/cpu/cpu2/cpufreq/scaling_max_freq'', d)]"
  by (simp add: example_host_def upt_rec scalingMaxFreqPath_def itoa_def natstr.simps
      digit_char_def)

lemma trend_examples:
  "decreases [Finite 10, Finite 9, Finite 8] = 2" "increases [Finite 10, Finite 9, Finite 8] = 0"
  "decreases [Finite 10, Finite 11, Finite 12] = 0" "increases [Finite 10, Finite 11, Finite 12] = 2"
  "decreases [Finite 10, Finite 10] = 1" "increases [Finite 10, Finite 10] = 0"
  by (simp_all add: decreases_def increases_def adjacent_pairs_def)

section \<open>What the scaler does\<close>





text \<open>
  C7. No price series makes the scaler read outside the slice or crash: the first loop
  always returns its two counters and the scaler always returns a trace. With fewer
  than two prices both counters are zero and the scaler goes through the branch of the
  maximum frequency.
\<close>

theorem C7_short_series_safe:
  assumes "getAvailableCPUFrequencies w scalingAvailableFrequenciesFile tr = (frequencies, tr1)"
    and "minmax_loop frequencies 10000000 0 = (minF, maxF)"
  shows "(\<exists>decs incs. trend_loop prices 0 0 0 = Inr (decs, incs))
     \<and> (\<exists>tr'. scaleCPUFrequency w prices tr = Inr tr')
     \<and> (length prices < 2 \<longrightarrow>
          trend_loop prices 0 0 0 = Inr (0, 0)
          \<and> scaleCPUFrequency w prices tr =
              Inr (scale_loop w maxF 0
                     (tr1 @ [LogInfo ''Prices are decreasing over the last three hours.'' []])))"
  by (simp add: scaleCPUFrequency_eq [OF assms] trend_loop_total decreases_short)

theorem C7_short_series_safe_witness:
  "length ([] :: float32 list) < 2
   \<and> trend_loop [] 0 0 0 = Inr (0, 0)
   \<and> scaleCPUFrequency example_host [] [] =
       Inr (scale_loop example_host 1600000 0
              [LogInfo ''Prices are decreasing over the last three hours.'' []])
   \<and> length [Finite 5] < 2
   \<and> trend_loop [Finite 5] 0 0 0 = Inr (0, 0)
   \<and> scaleCPUFrequency example_host [Finite 5] [] =
       Inr (scale_loop example_host 1600000 0
              [LogInfo ''Prices are decreasing over the last three hours.'' []])"
  using C7_short_series_safe [OF example_host_frequencies minmax_example, of "[]"]
    C7_short_series_safe [OF example_host_frequencies minmax_example, of "[Finite 5]"]
  by simp

text \<open>
  C8. Whatever the outcome of each write, the scaler calls \<open>os.WriteFile\<close> once for
  every core index from 0 up to the core count minus 2, in that order, on that core's
  \<open>scaling_max_freq\<close> path and with the target frequency in decimal; it writes to no
  other path, so never to the last core. A write that fails is logged (by
  \<open>writeFile\<close> and by the loop) and the remaining cores are still written.
\<close>

theorem C8_every_core_but_the_last:
  assumes "getAvailableCPUFrequencies w scalingAvailableFrequenciesFile tr = (frequencies, tr1)"
    and "minmax_loop frequencies 10000000 0 = (minF, maxF)"
    and "target = (if decreases prices < increases prices then minF else maxF)"
  shows "\<exists>tr'. scaleCPUFrequency w prices tr = Inr tr'
     \<and> writes_of tr' =
         writes_of tr @
         map (\<lambda>k. (scalingMaxFreqPath (int k), itoa target)) [0..<nat (runtime_NumCPU w - 1)]
     \<and> Atoi (itoa target) = Some target
     \<and> (\<forall>k. k < 0 \<or> runtime_NumCPU w - 1 \<le> k \<longrightarrow>
            scalingMaxFreqPath k \<notin>
              fst ` set (map (\<lambda>k. (scalingMaxFreqPath (int k), itoa target))
                          [0..<nat (runtime_NumCPU w - 1)]))
     \<and> (\<forall>k e. 0 \<le> k \<and> k < runtime_NumCPU w - 1
            \<and> (\<forall>h. os_WriteFile w h (scalingMaxFreqPath k) (itoa target) = Some e) \<longrightarrow>
            LogError ''Error writing frequency %s to path %s: %s\<newline>''
              [S (itoa target), S (scalingMaxFreqPath k), S e] \<in> set tr'
            \<and> LogInfo ''Not scaling cpu%d to frequency %d\<newline>'' [I k, I target] \<in> set tr')"
proof -
  define msg where "msg = (if decreases prices < increases prices
      then ''Prices are increasing over the last three hours''
      else ''Prices are decreasing over the last three hours.'')"
  define tr' where "tr' = scale_loop w target 0 (tr1 @ [LogInfo msg []])"
  have run: "scaleCPUFrequency w prices tr = Inr tr'"
    by (simp add: scaleCPUFrequency_eq [OF assms(1,2)] tr'_def msg_def assms(3))
  have writes: "writes_of tr' =
         writes_of tr @
         map (\<lambda>k. (scalingMaxFreqPath (int k), itoa target)) [0..<nat (runtime_NumCPU w - 1)]"
    using getAvailableCPUFrequencies_trace [OF assms(1)]
    by (simp add: tr'_def writes_scale_loop writes_of_append)
  have "target \<in> insert 10000000 (set (parsed_entries frequencies))
      \<or> target \<in> insert 0 (set (parsed_entries frequencies))"
    using minmax_loop_mem [OF assms(2)] assms(3) by auto
  moreover have "- (2 ^ 63) \<le> f \<and> f < 2 ^ 63" if "f \<in> set (parsed_entries fs)" for f fs
    using that
    by (induction fs) (auto simp: Atoi_def Let_def split: option.splits if_splits)
  ultimately have range: "- (2 ^ 63) \<le> target" "target < 2 ^ 63"
    by auto
  have decimal: "Atoi (itoa target) = Some target"
    by (rule Atoi_itoa [OF range])
  have others: "scalingMaxFreqPath k \<notin>
        fst ` set (map (\<lambda>k. (scalingMaxFreqPath (int k), itoa target))
                    [0..<nat (runtime_NumCPU w - 1)])"
    if "k < 0 \<or> runtime_NumCPU w - 1 \<le> k" for k
  proof
    assume "scalingMaxFreqPath k \<in>
        fst ` set (map (\<lambda>k. (scalingMaxFreqPath (int k), itoa target))
                    [0..<nat (runtime_NumCPU w - 1)])"
    then obtain j where j: "j < nat (runtime_NumCPU w - 1)"
      and "scalingMaxFreqPath k = scalingMaxFreqPath (int j)"
      by auto
    then have "k = int j" by (auto dest: scalingMaxFreqPath_inj)
    with j that show False by linarith
  qed
  have logged: "LogError ''Error writing frequency %s to path %s: %s\<newline>''
              [S (itoa target), S (scalingMaxFreqPath k), S e] \<in> set tr'
            \<and> LogInfo ''Not scaling cpu%d to frequency %d\<newline>'' [I k, I target] \<in> set tr'"
    if "0 \<le> k" "k < runtime_NumCPU w - 1"
      "\<forall>h. os_WriteFile w h (scalingMaxFreqPath k) (itoa target) = Some e" for k e
    unfolding tr'_def
    by (rule scale_loop_logs_failure [OF that(3) that(1) that(2)])
  show ?thesis
    using run writes decimal others logged by blast
qed
theorem C8_every_core_but_the_last_witness:
  "\<exists>tr'. scaleCPUFrequency
           (example_host\<lparr>os_WriteFile :=
              (\<lambda>h path data.
                 if path = ''/sys/devices/system/cpu/cpu1/cpufreq/scaling_max_freq''
                 then Some ''permission denied'' else None)\<rparr>)
           [Finite 5, Finite 4, Finite 6] [] = Inr tr'
     \<and> writes_of tr' =
         [(''/sys/devices/system/cpu/cpu0/cpufreq/scaling_max_freq'', ''1600000''),
          (''/sys/devices/system/cpu/cpu1/cpufreq/scaling_max_freq'', ''1600000''),
          (''/sys/devices/system/cpu/cpu2/cpufreq/scaling_max_freq'', ''1600000'')]
     \<and> ''/sys/devices/system/cpu/cpu3/cpufreq/scaling_max_freq'' \<notin> fst ` set (writes_of tr')
     \<and> LogError ''Error writing frequency %s to path %s: %s\<newline>''
           [S ''1600000'', S ''/sys/devices/system/cpu/cpu1/cpufreq/scaling_max_freq'',
            S ''permission denied''] \<in> set tr'
     \<and> LogInfo ''Not scaling cpu%d to frequency %d\<newline>'' [I 1, I 1600000] \<in> set tr'"
proof -
  define host where "host = example_host\<lparr>os_WriteFile :=
              (\<lambda>h path data.
                 if path = ''/sys/devices/system/cpu/cpu1/cpufreq/scaling_max_freq''
                 then Some ''permission denied'' else None)\<rparr>"
  have avail: "getAvailableCPUFrequencies host scalingAvailableFrequenciesFile [] =
      (Split ''800000 1200000 1600000'' (CHR '' ''), [])"
    by (simp add: getAvailableCPUFrequencies_def readFile_def example_host_def host_def)
  have counts: "decreases [Finite 5, Finite 4, Finite 6] = 1"
    "increases [Finite 5, Finite 4, Finite 6] = 1"
    by (simp_all add: decreases_def increases_def adjacent_pairs_def)
  have target: "(1600000 :: int) =
      (if decreases [Finite 5, Finite 4, Finite 6] < increases [Finite 5, Finite 4, Finite 6]
       then 800000 else 1600000)"
    by (simp add: counts)
  have digits: "itoa 1600000 = ''1600000''"
    by (simp add: itoa_def natstr.simps digit_char_def)
  have paths: "scalingMaxFreqPath 1 = ''/sys/devices/system/cpu/cpu1/cpufreq/scaling_max_freq''"
    "scalingMaxFreqPath 3 = ''/sys/devices/system/cpu/cpu3/cpufreq/scaling_max_freq''"
    by (simp_all add: scalingMaxFreqPath_def itoa_def natstr.simps digit_char_def)
  have cores: "runtime_NumCPU host = 4"
    by (simp add: host_def example_host_def)
  have cores_map: "map (\<lambda>k. (scalingMaxFreqPath (int k), d)) [0..<nat (runtime_NumCPU host - 1)] =
     [(''/sys/devices/system/cpu/cpu0/cpufreq/scaling_max_freq'', d),
      (''/sys/devices/system/cpu/cpu1/cpufreq/scaling_max_freq'', d),
      (''/sys/devices/system/cpu/cpu2/cpufreq/scaling_max_freq'', d)]" for d :: string
    by (simp add: cores upt_rec scalingMaxFreqPath_def itoa_def natstr.simps digit_char_def)
  have fails: "\<forall>h. os_WriteFile host h (scalingMaxFreqPath 1) (itoa 1600000) = Some ''permission denied''"
    by (simp add: host_def example_host_def paths)
  from C8_every_core_but_the_last [OF avail minmax_example target]
  obtain tr' where run: "scaleCPUFrequency host [Finite 5, Finite 4, Finite 6] [] = Inr tr'"
    and writes: "writes_of tr' = writes_of [] @
         map (\<lambda>k. (scalingMaxFreqPath (int k), itoa 1600000)) [0..<nat (runtime_NumCPU host - 1)]"
    and others: "\<forall>k. k < 0 \<or> runtime_NumCPU host - 1 \<le> k \<longrightarrow>
            scalingMaxFreqPath k \<notin>
              fst ` set (map (\<lambda>k. (scalingMaxFreqPath (int k), itoa 1600000))
                          [0..<nat (runtime_NumCPU host - 1)])"
    and logged: "\<forall>k e. 0 \<le> k \<and> k < runtime_NumCPU host - 1
            \<and> (\<forall>h. os_WriteFile host h (scalingMaxFreqPath k) (itoa 1600000) = Some e) \<longrightarrow>
            LogError ''Error writing frequency %s to path %s: %s\<newline>''
              [S (itoa 1600000), S (scalingMaxFreqPath k), S e] \<in> set tr'
            \<and> LogInfo ''Not scaling cpu%d to frequency %d\<newline>'' [I k, I 1600000] \<in> set tr'"
    by blast
  have w: "writes_of tr' =
         [(''/sys/devices/system/cpu/cpu0/cpufreq/scaling_max_freq'', ''1600000''),
          (''/sys/devices/system/cpu/cpu1/cpufreq/scaling_max_freq'', ''1600000''),
          (''/sys/devices/system/cpu/cpu2/cpufreq/scaling_max_freq'', ''1600000'')]"
    using writes by (simp only: cores_map digits writes_of.simps append_Nil)
  have last: "''/sys/devices/system/cpu/cpu3/cpufreq/scaling_max_freq'' \<notin> fst ` set (writes_of tr')"
    using others [rule_format, of 3] by (simp only: w cores_map digits paths) (simp add: cores)
  have l: "LogError ''Error writing frequency %s to path %s: %s\<newline>''
           [S ''1600000'', S ''/sys/devices/system/cpu/cpu1/cpufreq/scaling_max_freq'',
            S ''permission denied''] \<in> set tr'
     \<and> LogInfo ''Not scaling cpu%d to frequency %d\<newline>'' [I 1, I 1600000] \<in> set tr'"
    using logged [rule_format, of 1 "''permission denied''"] fails
    by (simp add: cores paths digits)
  show ?thesis
    using run w last l unfolding host_def by blast
qed

text \<open>
  C5, as amended. Let \<open>(minF, maxF)\<close> be the range that the scan of the capability file
  leaves. Every parsed entry lies between \<open>minF\<close> and \<open>maxF\<close>, so \<open>minF \<le> maxF\<close> as
  soon as one token parses. \<open>minF\<close> is a parsed entry or the initial 10000000, and it is
  a parsed entry whenever some parsed entry is at most 10000000; \<open>maxF\<close> is a parsed
  entry or the initial 0, and it is a parsed entry whenever some parsed entry is at
  least 0. Tokens that do not parse are skipped. When no token parses, and so when the
  file does not exist, cannot be read or is empty, \<open>minF\<close> stays 10000000 and \<open>maxF\<close>
  stays 0. For the content \<open>800000 1200000 1600000\<close> the range is 800000 to 1600000.
\<close>

theorem C5_frequency_range:
  assumes "getAvailableCPUFrequencies w scalingAvailableFrequenciesFile tr = (frequencies, tr1)"
    and "minmax_loop frequencies 10000000 0 = (minF, maxF)"
  shows "(\<forall>f \<in> set (parsed_entries frequencies). minF \<le> f \<and> f \<le> maxF)
     \<and> (parsed_entries frequencies \<noteq> [] \<longrightarrow> minF \<le> maxF)
     \<and> minF \<in> insert 10000000 (set (parsed_entries frequencies))
     \<and> maxF \<in> insert 0 (set (parsed_entries frequencies))
     \<and> ((\<exists>f \<in> set (parsed_entries frequencies). f \<le> 10000000) \<longrightarrow>
          minF \<in> set (parsed_entries frequencies))
     \<and> ((\<exists>f \<in> set (parsed_entries frequencies). 0 \<le> f) \<longrightarrow>
          maxF \<in> set (parsed_entries frequencies))
     \<and> (parsed_entries frequencies = [] \<longrightarrow> minF = 10000000 \<and> maxF = 0)
     \<and> (os_Stat_NotExist w scalingAvailableFrequenciesFile
          \<or> os_ReadFile w scalingAvailableFrequenciesFile = None
          \<or> os_ReadFile w scalingAvailableFrequenciesFile = Some '''' \<longrightarrow>
          frequencies = [] \<and> minF = 10000000 \<and> maxF = 0)
     \<and> (\<not> os_Stat_NotExist w scalingAvailableFrequenciesFile
          \<and> os_ReadFile w scalingAvailableFrequenciesFile = Some ''800000 1200000 1600000'' \<longrightarrow>
          minF = 800000 \<and> maxF = 1600000)"
proof -
  have between: "\<forall>f \<in> set (parsed_entries frequencies). minF \<le> f \<and> f \<le> maxF"
    using minmax_loop_bounds [OF assms(2)] by blast
  then have ordered: "parsed_entries frequencies \<noteq> [] \<longrightarrow> minF \<le> maxF"
    by (cases "parsed_entries frequencies") fastforce+
  have drawn: "minF \<in> insert 10000000 (set (parsed_entries frequencies))"
    "maxF \<in> insert 0 (set (parsed_entries frequencies))"
    using minmax_loop_mem [OF assms(2)] by blast+
  have min_parsed: "(\<exists>f \<in> set (parsed_entries frequencies). f \<le> 10000000) \<longrightarrow>
          minF \<in> set (parsed_entries frequencies)"
  proof
    assume "\<exists>f \<in> set (parsed_entries frequencies). f \<le> 10000000"
    then obtain f where f: "f \<in> set (parsed_entries frequencies)" "f \<le> 10000000" by blast
    show "minF \<in> set (parsed_entries frequencies)"
    proof (cases "minF = 10000000")
      case True
      with between f have "f = minF" by fastforce
      with f show ?thesis by simp
    next
      case False
      with drawn show ?thesis by simp
    qed
  qed
  have max_parsed: "(\<exists>f \<in> set (parsed_entries frequencies). 0 \<le> f) \<longrightarrow>
          maxF \<in> set (parsed_entries frequencies)"
  proof
    assume "\<exists>f \<in> set (parsed_entries frequencies). 0 \<le> f"
    then obtain f where f: "f \<in> set (parsed_entries frequencies)" "0 \<le> f" by blast
    show "maxF \<in> set (parsed_entries frequencies)"
    proof (cases "maxF = 0")
      case True
      with between f have "f = maxF" by fastforce
      with f show ?thesis by simp
    next
      case False
      with drawn show ?thesis by simp
    qed
  qed
  have none: "parsed_entries frequencies = [] \<longrightarrow> minF = 10000000 \<and> maxF = 0"
    using assms(2) by (auto simp: minmax_loop_none)
  have unreadable: "os_Stat_NotExist w scalingAvailableFrequenciesFile
          \<or> os_ReadFile w scalingAvailableFrequenciesFile = None
          \<or> os_ReadFile w scalingAvailableFrequenciesFile = Some '''' \<longrightarrow>
          frequencies = [] \<and> minF = 10000000 \<and> maxF = 0"
  proof
    assume "os_Stat_NotExist w scalingAvailableFrequenciesFile
          \<or> os_ReadFile w scalingAvailableFrequenciesFile = None
          \<or> os_ReadFile w scalingAvailableFrequenciesFile = Some ''''"
    from getAvailableCPUFrequencies_no_content [OF this, of tr] assms(1)
    have "frequencies = []" by simp
    with assms(2) show "frequencies = [] \<and> minF = 10000000 \<and> maxF = 0" by simp
  qed
  have example: "\<not> os_Stat_NotExist w scalingAvailableFrequenciesFile
          \<and> os_ReadFile w scalingAvailableFrequenciesFile = Some ''800000 1200000 1600000'' \<longrightarrow>
          minF = 800000 \<and> maxF = 1600000"
  proof
    assume a: "\<not> os_Stat_NotExist w scalingAvailableFrequenciesFile
          \<and> os_ReadFile w scalingAvailableFrequenciesFile = Some ''800000 1200000 1600000''"
    have "getAvailableCPUFrequencies w scalingAvailableFrequenciesFile tr =
        (Split ''800000 1200000 1600000'' (CHR '' ''), tr)"
      by (rule getAvailableCPUFrequencies_content) (use a in simp_all)
    with assms(1) have "frequencies = Split ''800000 1200000 1600000'' (CHR '' '')"
      by (simp only: prod.inject)
    with assms(2) minmax_example show "minF = 800000 \<and> maxF = 1600000"
      by (simp only: prod.inject)
  qed
  show ?thesis
    using between ordered drawn min_parsed max_parsed none unreadable example by blast
qed

theorem C5_frequency_range_witness:
  "getAvailableCPUFrequencies example_host scalingAvailableFrequenciesFile [] =
     (Split ''800000 1200000 1600000'' (CHR '' ''), [])
   \<and> minmax_loop (Split ''800000 1200000 1600000'' (CHR '' '')) 10000000 0 = (800000, 1600000)
   \<and> parsed_entries (Split ''800000 1200000 1600000'' (CHR '' '')) = [800000, 1200000, 1600000]
   \<and> (800000 :: int) \<le> 1600000
   \<and> (800000 :: int) \<in> set [800000, 1200000, 1600000]
   \<and> (1600000 :: int) \<in> set [800000, 1200000, 1600000]
   \<and> getAvailableCPUFrequencies (example_host\<lparr>os_Stat_NotExist := (\<lambda>path. True)\<rparr>)
        scalingAvailableFrequenciesFile [] =
       ([], [LogError ''Path %s does not exist\<newline>'' [S scalingAvailableFrequenciesFile]])
   \<and> minmax_loop [] 10000000 0 = (10000000, 0)"
proof -
  have gone: "getAvailableCPUFrequencies (example_host\<lparr>os_Stat_NotExist := (\<lambda>path. True)\<rparr>)
        scalingAvailableFrequenciesFile [] =
       ([], [LogError ''Path %s does not exist\<newline>'' [S scalingAvailableFrequenciesFile]])"
    by (simp add: getAvailableCPUFrequencies_def readFile_def example_host_def)
  have empty: "minmax_loop [] 10000000 0 = (10000000, 0)" by simp
  note positive = C5_frequency_range [OF example_host_frequencies minmax_example]
  note degenerate = C5_frequency_range [OF gone empty]
  from positive have "(800000 :: int) \<le> 1600000
      \<and> (800000 :: int) \<in> set [800000, 1200000, 1600000]
      \<and> (1600000 :: int) \<in> set [800000, 1200000, 1600000]"
    by (simp add: parsed_example)
  moreover from degenerate have "minmax_loop [] 10000000 0 = (10000000, 0)"
    by simp
  ultimately show ?thesis
    using example_host_frequencies minmax_example parsed_example gone by blast
qed

theorem C5_counterexample:
  "getAvailableCPUFrequencies (example_host\<lparr>os_ReadFile := (\<lambda>path. Some ''abc'')\<rparr>)
     scalingAvailableFrequenciesFile [] = ([''abc''], [])
   \<and> parsed_entries [''abc''] = []
   \<and> minmax_loop [''abc''] 10000000 0 = (10000000, 0)
   \<and> \<not> (10000000 :: int) \<le> 0
   \<and> getAvailableCPUFrequencies (example_host\<lparr>os_ReadFile := (\<lambda>path. Some ''20000000'')\<rparr>)
       scalingAvailableFrequenciesFile [] = ([''20000000''], [])
   \<and> parsed_entries [''20000000''] = [20000000]
   \<and> minmax_loop [''20000000''] 10000000 0 = (10000000, 20000000)
   \<and> (10000000 :: int) \<notin> set [20000000]"
  by (simp add: getAvailableCPUFrequencies_def readFile_def example_host_def Atoi_def
      digit_of_def)

text \<open>
  C10. When no token of the capability file parses as an integer, which includes the
  file that does not exist, cannot be read or is empty, nothing guards the writes: the
  scaler still writes to every core but the last, and what it writes is the initial
  value of the range, \<open>0\<close> when the increases do not outnumber the decreases and
  \<open>10000000\<close> when they do.
\<close>

theorem C10_sentinel_is_written:
  assumes "getAvailableCPUFrequencies w scalingAvailableFrequenciesFile tr = (frequencies, tr1)"
  shows "(os_Stat_NotExist w scalingAvailableFrequenciesFile
          \<or> os_ReadFile w scalingAvailableFrequenciesFile = None
          \<or> os_ReadFile w scalingAvailableFrequenciesFile = Some '''' \<longrightarrow>
          parsed_entries frequencies = [])
     \<and> (parsed_entries frequencies = [] \<longrightarrow>
          (\<exists>tr'. scaleCPUFrequency w prices tr = Inr tr'
             \<and> writes_of tr' =
                 writes_of tr @
                 map (\<lambda>k. (scalingMaxFreqPath (int k),
                            if decreases prices < increases prices then ''10000000'' else ''0''))
                   [0..<nat (runtime_NumCPU w - 1)]))"
proof -
  have unreadable: "os_Stat_NotExist w scalingAvailableFrequenciesFile
          \<or> os_ReadFile w scalingAvailableFrequenciesFile = None
          \<or> os_ReadFile w scalingAvailableFrequenciesFile = Some '''' \<longrightarrow>
          parsed_entries frequencies = []"
  proof
    assume "os_Stat_NotExist w scalingAvailableFrequenciesFile
          \<or> os_ReadFile w scalingAvailableFrequenciesFile = None
          \<or> os_ReadFile w scalingAvailableFrequenciesFile = Some ''''"
    from getAvailableCPUFrequencies_no_content [OF this, of tr] assms
    show "parsed_entries frequencies = []" by simp
  qed
  have digits: "itoa 10000000 = ''10000000''" "itoa 0 = ''0''"
    by (simp_all add: itoa_def natstr.simps digit_char_def)
  have sentinel: "parsed_entries frequencies = [] \<longrightarrow>
          (\<exists>tr'. scaleCPUFrequency w prices tr = Inr tr'
             \<and> writes_of tr' =
                 writes_of tr @
                 map (\<lambda>k. (scalingMaxFreqPath (int k),
                            if decreases prices < increases prices then ''10000000'' else ''0''))
                   [0..<nat (runtime_NumCPU w - 1)])"
  proof
    assume "parsed_entries frequencies = []"
    then have range: "minmax_loop frequencies 10000000 0 = (10000000, 0)"
      by (rule minmax_loop_none)
    from scaleCPUFrequency_writes [OF assms range, of prices]
    obtain tr' where run: "scaleCPUFrequency w prices tr = Inr tr'"
      and writes: "writes_of tr' =
         writes_of tr @
         map (\<lambda>k. (scalingMaxFreqPath (int k),
                    itoa (if decreases prices < increases prices then 10000000 else 0)))
           [0..<nat (runtime_NumCPU w - 1)]"
      by blast
    have "itoa (if decreases prices < increases prices then 10000000 else 0) =
        (if decreases prices < increases prices then ''10000000'' else ''0'')"
      by (simp add: digits)
    with run writes show "\<exists>tr'. scaleCPUFrequency w prices tr = Inr tr'
             \<and> writes_of tr' =
                 writes_of tr @
                 map (\<lambda>k. (scalingMaxFreqPath (int k),
                            if decreases prices < increases prices then ''10000000'' else ''0''))
                   [0..<nat (runtime_NumCPU w - 1)]"
      by auto
  qed
  show ?thesis using unreadable sentinel by blast
qed

theorem C10_sentinel_is_written_witness:
  "(\<exists>tr'. scaleCPUFrequency (example_host\<lparr>os_ReadFile := (\<lambda>path. None)\<rparr>)
            [Finite 10, Finite 9, Finite 8] [] = Inr tr'
      \<and> writes_of tr' =
          [(''/sys/devices/system/cpu/cpu0/cpufreq/scaling_max_freq'', ''0''),
           (''/sys/devices/system/cpu/cpu1/cpufreq/scaling_max_freq'', ''0''),
           (''/sys/devices/system/cpu/cpu2/cpufreq/scaling_max_freq'', ''0'')])
   \<and> (\<exists>tr'. scaleCPUFrequency (example_host\<lparr>os_ReadFile := (\<lambda>path. Some ''n/a'')\<rparr>)
            [Finite 10, Finite 11, Finite 12] [] = Inr tr'
      \<and> writes_of tr' =
          [(''/sys/devices/system/cpu/cpu0/cpufreq/scaling_max_freq'', ''10000000''),
           (''/sys/devices/system/cpu/cpu1/cpufreq/scaling_max_freq'', ''10000000''),
           (''/sys/devices/system/cpu/cpu2/cpufreq/scaling_max_freq'', ''10000000'')])"
proof -
  define host1 where "host1 = example_host\<lparr>os_ReadFile := (\<lambda>path. None)\<rparr>"
  define host2 where "host2 = example_host\<lparr>os_ReadFile := (\<lambda>path. Some ''n/a'')\<rparr>"
  have avail1: "getAvailableCPUFrequencies host1 scalingAvailableFrequenciesFile [] =
      ([], [LogError ''Failed to open path %s\<newline>'' [S scalingAvailableFrequenciesFile]])"
    by (simp add: getAvailableCPUFrequencies_def readFile_def example_host_def host1_def)
  have avail2: "getAvailableCPUFrequencies host2 scalingAvailableFrequenciesFile [] =
      ([''n/a''], [])"
    by (simp add: getAvailableCPUFrequencies_def readFile_def example_host_def host2_def)
  have unparsed: "Atoi ''n/a'' = None"
    by (simp add: Atoi_def digit_of_def)
  have cores: "runtime_NumCPU host1 = runtime_NumCPU example_host"
    "runtime_NumCPU host2 = runtime_NumCPU example_host"
    by (simp_all add: host1_def host2_def)
  from C10_sentinel_is_written [OF avail1, of "[Finite 10, Finite 9, Finite 8]"]
  have one: "\<exists>tr'. scaleCPUFrequency host1 [Finite 10, Finite 9, Finite 8] [] = Inr tr'
      \<and> writes_of tr' =
          [(''/sys/devices/system/cpu/cpu0/cpufreq/scaling_max_freq'', ''0''),
           (''/sys/devices/system/cpu/cpu1/cpufreq/scaling_max_freq'', ''0''),
           (''/sys/devices/system/cpu/cpu2/cpufreq/scaling_max_freq'', ''0'')]"
    by (simp add: trend_examples cores example_host_cores)
  from C10_sentinel_is_written [OF avail2, of "[Finite 10, Finite 11, Finite 12]"]
  have two: "\<exists>tr'. scaleCPUFrequency host2 [Finite 10, Finite 11, Finite 12] [] = Inr tr'
      \<and> writes_of tr' =
          [(''/sys/devices/system/cpu/cpu0/cpufreq/scaling_max_freq'', ''10000000''),
           (''/sys/devices/system/cpu/cpu1/cpufreq/scaling_max_freq'', ''10000000''),
           (''/sys/devices/system/cpu/cpu2/cpufreq/scaling_max_freq'', ''10000000'')]"
    by (simp add: trend_examples cores example_host_cores unparsed)
  show ?thesis
    using one two unfolding host1_def host2_def by blast
qed

section \<open>The market data client\<close>

lemma sendRequest_trace:
  "sendRequest w g action payload tr = (r, tr') \<Longrightarrow>
     fetches_of tr' = fetches_of tr \<and> set tr \<subseteq> set tr'"
  by (auto simp: sendRequest_def Let_def fetches_of_append
      split: option.splits sum.splits if_splits)

lemma GetImPriceE_trace:
  "GetImPriceE w g a b c d tr = (r, tr') \<Longrightarrow>
     fetches_of tr' = fetches_of tr @ [(a, b, c, d)] \<and> set tr \<subseteq> set tr'"
  unfolding GetImPriceE_def
  by (drule sendRequest_trace) (auto simp: fetches_of_append)

lemma extractPrices_loop_eq:
  "extractPrices_loop items acc tr =
     (acc @ map Price items,
      tr @ map (\<lambda>s. LogInfo ''Date: %s Hour: %d Price: %f Volume: %f\<newline>''
                       [S (Date s), I (Hour s), F (Price s), F (Volume s)]) items)"
  by (induction items arbitrary: acc tr) auto

lemma fetches_of_item_logs:
  "fetches_of (map (\<lambda>s. LogInfo fmt (args s)) items) = []"
  by (induction items) auto

lemma extract_decoded:
  "xml_Decode_IntraDay w (Body res) = Inr items \<Longrightarrow>
     extractPricesFromGetImPriceE w res tr =
       (map Price items, None,
        tr @ map (\<lambda>s. LogInfo ''Date: %s Hour: %d Price: %f Volume: %f\<newline>''
                         [S (Date s), I (Hour s), F (Price s), F (Volume s)]) items)"
  by (simp add: extractPricesFromGetImPriceE_def extractPrices_loop_eq)

lemma extract_failed:
  "xml_Decode_IntraDay w (Body res) = Inl e \<Longrightarrow>
     extractPricesFromGetImPriceE w res tr =
       ([], Some e, tr @ [LogError ''Error on unmarshaling xml: %s\<newline>'' [S e]])"
  by (simp add: extractPricesFromGetImPriceE_def)

lemma extract_trace:
  "extractPricesFromGetImPriceE w res tr = (prices, err, tr') \<Longrightarrow>
     fetches_of tr' = fetches_of tr \<and> set tr \<subseteq> set tr'"
  by (cases "xml_Decode_IntraDay w (Body res)")
     (auto simp: extract_decoded extract_failed fetches_of_append fetches_of_item_logs)












section \<open>The orchestrator\<close>

lemma single_day_run:
  assumes "startDate t = endDate t"
    and "GetImPriceE w g (startDate t) (endDate t) (startHour t) (endHour t)
           (tr @ [LogInfo ''------- Function Call: GetImPriceE vnitrodenna cena-------'' []]) =
         (h, tr1)"
  shows "getElectrictyPrices w g t tr =
     (case h of
        None \<Rightarrow> ([], tr1 @ [LogError ''HTTP Error, exiting.'' []])
      | Some htr \<Rightarrow>
          (case xml_Decode_IntraDay w (Body htr) of
             Inl e \<Rightarrow>
               ([], tr1 @ [LogError ''Error on unmarshaling xml: %s\<newline>'' [S e],
                           LogError ''Error getting prices from today, exiting.'' []])
           | Inr items \<Rightarrow>
               (map Price items,
                tr1 @ map (\<lambda>s. LogInfo ''Date: %s Hour: %d Price: %f Volume: %f\<newline>''
                                  [S (Date s), I (Hour s), F (Price s), F (Volume s)]) items)))"
  using assms
  by (auto simp: getElectrictyPrices_def extract_decoded extract_failed
      split: option.splits sum.splits)

lemma two_day_first_none:
  assumes "startDate t \<noteq> endDate t"
    and "GetImPriceE w g (startDate t) (startDate t) (startHour t) ''24''
           (tr @ [LogInfo ''------- Function Call: GetImPriceE vnitrodenna cena-------'' []]) =
         (None, tr1)"
  shows "getElectrictyPrices w g t tr = ([], tr1 @ [LogError ''HTTP Error, exiting.'' []])"
  using assms by (simp add: getElectrictyPrices_def)

lemma two_day_first_some:
  assumes "startDate t \<noteq> endDate t"
    and "GetImPriceE w g (startDate t) (startDate t) (startHour t) ''24''
           (tr @ [LogInfo ''------- Function Call: GetImPriceE vnitrodenna cena-------'' []]) =
         (Some r1, tr1)"
    and "extractPricesFromGetImPriceE w r1 tr1 = (prices1, err1, tr2)"
    and "GetImPriceE w g (endDate t) (endDate t) ''0'' (endHour t)
           (case err1 of
              None \<Rightarrow> tr2
            | Some e \<Rightarrow>
                tr2 @ [LogInfo ''Error getting prices from previous day, continuing on second.''
                         []]) =
         (h2, tr4)"
  shows "getElectrictyPrices w g t tr =
     (case h2 of
        None \<Rightarrow> ([], tr4 @ [LogError ''HTTP Error, exiting.'' []])
      | Some r2 \<Rightarrow>
          (case xml_Decode_IntraDay w (Body r2) of
             Inl e \<Rightarrow>
               ([], tr4 @ [LogError ''Error on unmarshaling xml: %s\<newline>'' [S e],
                           LogError ''Error getting prices from this day, exiting.'' []])
           | Inr items2 \<Rightarrow>
               (prices1 @ map Price items2,
                tr4 @ map (\<lambda>s. LogInfo ''Date: %s Hour: %d Price: %f Volume: %f\<newline>''
                                  [S (Date s), I (Hour s), F (Price s), F (Volume s)]) items2)))"
  using assms
  by (auto simp: getElectrictyPrices_def extract_decoded extract_failed
      split: option.splits sum.splits)

lemma single_day_fetches:
  assumes "startDate t = endDate t"
  shows "fetches_of (snd (getElectrictyPrices w g t tr)) =
     fetches_of tr @ [(startDate t, endDate t, startHour t, endHour t)]"
proof -
  obtain h tr1 where run: "GetImPriceE w g (startDate t) (endDate t) (startHour t) (endHour t)
           (tr @ [LogInfo ''------- Function Call: GetImPriceE vnitrodenna cena-------'' []]) =
         (h, tr1)"
    by (cases "GetImPriceE w g (startDate t) (endDate t) (startHour t) (endHour t)
           (tr @ [LogInfo ''------- Function Call: GetImPriceE vnitrodenna cena-------'' []])")
       auto
  have "fetches_of tr1 = fetches_of tr @ [(startDate t, endDate t, startHour t, endHour t)]"
    using GetImPriceE_trace [OF run] by (simp add: fetches_of_append)
  then show ?thesis
    by (simp add: single_day_run [OF assms run] fetches_of_append fetches_of_item_logs
        split: option.splits sum.splits)
qed

lemma two_day_fetches_none:
  assumes "startDate t \<noteq> endDate t"
    and "GetImPriceE w g (startDate t) (startDate t) (startHour t) ''24''
           (tr @ [LogInfo ''------- Function Call: GetImPriceE vnitrodenna cena-------'' []]) =
         (None, tr1)"
  shows "fetches_of (snd (getElectrictyPrices w g t tr)) =
     fetches_of tr @ [(startDate t, startDate t, startHour t, ''24'')]"
  using GetImPriceE_trace [OF assms(2)]
  by (simp add: two_day_first_none [OF assms] fetches_of_append)

lemma two_day_fetches_some:
  assumes "startDate t \<noteq> endDate t"
    and "GetImPriceE w g (startDate t) (startDate t) (startHour t) ''24''
           (tr @ [LogInfo ''------- Function Call: GetImPriceE vnitrodenna cena-------'' []]) =
         (Some r1, tr1)"
  shows "fetches_of (snd (getElectrictyPrices w g t tr)) =
     fetches_of tr @ [(startDate t, startDate t, startHour t, ''24''),
                      (endDate t, endDate t, ''0'', endHour t)]"
proof -
  obtain prices1 err1 tr2 where x1: "extractPricesFromGetImPriceE w r1 tr1 = (prices1, err1, tr2)"
    by (cases "extractPricesFromGetImPriceE w r1 tr1") auto
  define tr3 where "tr3 = (case err1 of
              None \<Rightarrow> tr2
            | Some e \<Rightarrow>
                tr2 @ [LogInfo ''Error getting prices from previous day, continuing on second.''
                         []])"
  obtain h2 tr4 where second: "GetImPriceE w g (endDate t) (endDate t) ''0'' (endHour t) tr3 =
      (h2, tr4)"
    by (cases "GetImPriceE w g (endDate t) (endDate t) ''0'' (endHour t) tr3") auto
  have f1: "fetches_of tr1 = fetches_of tr @ [(startDate t, startDate t, startHour t, ''24'')]"
    using GetImPriceE_trace [OF assms(2)] by (simp add: fetches_of_append)
  have f2: "fetches_of tr2 = fetches_of tr1"
    using extract_trace [OF x1] by simp
  have f3: "fetches_of tr3 = fetches_of tr2"
    by (simp add: tr3_def fetches_of_append split: option.splits)
  have f4: "fetches_of tr4 = fetches_of tr3 @ [(endDate t, endDate t, ''0'', endHour t)]"
    using GetImPriceE_trace [OF second] by simp
  show ?thesis
    by (simp add: two_day_first_some [OF assms x1 second [unfolded tr3_def]]
        f1 f2 f3 f4 fetches_of_append fetches_of_item_logs split: option.splits sum.splits)
qed

text \<open>
  C4, as amended. For a window within one day the orchestrator calls \<open>GetImPriceE\<close>
  exactly once, with (startDate, endDate, startHour, endHour). For a window over two
  days it first calls it with (startDate, startDate, startHour, "24"); when that call
  returns no response it makes no other call; when it returns a response it makes
  exactly one more call, with (endDate, endDate, "0", endHour). When both calls return
  a response and the second response decodes, the series returned is the prices of the
  first response (all of them, in order, or none when it does not decode) followed by
  the prices of the second: the earlier day first.
\<close>

theorem C4_fetch_plan:
  "(startDate t = endDate t \<longrightarrow>
      fetches_of (snd (getElectrictyPrices w g t tr)) =
        fetches_of tr @ [(startDate t, endDate t, startHour t, endHour t)])
   \<and> (startDate t \<noteq> endDate t \<longrightarrow>
      (\<forall>tr1.
          GetImPriceE w g (startDate t) (startDate t) (startHour t) ''24''
            (tr @ [LogInfo ''------- Function Call: GetImPriceE vnitrodenna cena-------'' []]) =
          (None, tr1) \<longrightarrow>
          fetches_of (snd (getElectrictyPrices w g t tr)) =
            fetches_of tr @ [(startDate t, startDate t, startHour t, ''24'')])
      \<and> (\<forall>r1 tr1.
          GetImPriceE w g (startDate t) (startDate t) (startHour t) ''24''
            (tr @ [LogInfo ''------- Function Call: GetImPriceE vnitrodenna cena-------'' []]) =
          (Some r1, tr1) \<longrightarrow>
          fetches_of (snd (getElectrictyPrices w g t tr)) =
            fetches_of tr @ [(startDate t, startDate t, startHour t, ''24''),
                             (endDate t, endDate t, ''0'', endHour t)])
      \<and> (\<forall>r1 tr1 prices1 err1 tr2 r2 tr4 items2.
          GetImPriceE w g (startDate t) (startDate t) (startHour t) ''24''
            (tr @ [LogInfo ''------- Function Call: GetImPriceE vnitrodenna cena-------'' []]) =
          (Some r1, tr1)
          \<and> extractPricesFromGetImPriceE w r1 tr1 = (prices1, err1, tr2)
          \<and> GetImPriceE w g (endDate t) (endDate t) ''0'' (endHour t)
               (case err1 of
                  None \<Rightarrow> tr2
                | Some e \<Rightarrow>
                    tr2 @ [LogInfo
                      ''Error getting prices from previous day, continuing on second.'' []]) =
             (Some r2, tr4)
          \<and> xml_Decode_IntraDay w (Body r2) = Inr items2 \<longrightarrow>
          fst (getElectrictyPrices w g t tr) = prices1 @ map Price items2
          \<and> prices1 =
              (case xml_Decode_IntraDay w (Body r1) of
                 Inl e \<Rightarrow> []
               | Inr items1 \<Rightarrow> map Price items1)))"
proof (intro conjI impI allI)
  assume "startDate t = endDate t"
  then show "fetches_of (snd (getElectrictyPrices w g t tr)) =
        fetches_of tr @ [(startDate t, endDate t, startHour t, endHour t)]"
    by (rule single_day_fetches)
next
  fix tr1
  assume "startDate t \<noteq> endDate t"
    and "GetImPriceE w g (startDate t) (startDate t) (startHour t) ''24''
            (tr @ [LogInfo ''------- Function Call: GetImPriceE vnitrodenna cena-------'' []]) =
          (None, tr1)"
  then show "fetches_of (snd (getElectrictyPrices w g t tr)) =
            fetches_of tr @ [(startDate t, startDate t, startHour t, ''24'')]"
    by (rule two_day_fetches_none)
next
  fix r1 tr1
  assume "startDate t \<noteq> endDate t"
    and "GetImPriceE w g (startDate t) (startDate t) (startHour t) ''24''
            (tr @ [LogInfo ''------- Function Call: GetImPriceE vnitrodenna cena-------'' []]) =
          (Some r1, tr1)"
  then show "fetches_of (snd (getElectrictyPrices w g t tr)) =
            fetches_of tr @ [(startDate t, startDate t, startHour t, ''24''),
                             (endDate t, endDate t, ''0'', endHour t)]"
    by (rule two_day_fetches_some)
next
  fix r1 tr1 prices1 err1 tr2 r2 tr4 items2
  assume two: "startDate t \<noteq> endDate t"
    and all: "GetImPriceE w g (startDate t) (startDate t) (startHour t) ''24''
            (tr @ [LogInfo ''------- Function Call: GetImPriceE vnitrodenna cena-------'' []]) =
          (Some r1, tr1)
          \<and> extractPricesFromGetImPriceE w r1 tr1 = (prices1, err1, tr2)
          \<and> GetImPriceE w g (endDate t) (endDate t) ''0'' (endHour t)
               (case err1 of
                  None \<Rightarrow> tr2
                | Some e \<Rightarrow>
                    tr2 @ [LogInfo
                      ''Error getting prices from previous day, continuing on second.'' []]) =
             (Some r2, tr4)
          \<and> xml_Decode_IntraDay w (Body r2) = Inr items2"
  from all have first: "GetImPriceE w g (startDate t) (startDate t) (startHour t) ''24''
            (tr @ [LogInfo ''------- Function Call: GetImPriceE vnitrodenna cena-------'' []]) =
          (Some r1, tr1)"
    and x1: "extractPricesFromGetImPriceE w r1 tr1 = (prices1, err1, tr2)"
    and second: "GetImPriceE w g (endDate t) (endDate t) ''0'' (endHour t)
               (case err1 of
                  None \<Rightarrow> tr2
                | Some e \<Rightarrow>
                    tr2 @ [LogInfo
                      ''Error getting prices from previous day, continuing on second.'' []]) =
             (Some r2, tr4)"
    and d2: "xml_Decode_IntraDay w (Body r2) = Inr items2"
    by blast+
  show "fst (getElectrictyPrices w g t tr) = prices1 @ map Price items2"
    by (simp add: two_day_first_some [OF two first x1 second] d2)
  show "prices1 =
              (case xml_Decode_IntraDay w (Body r1) of
                 Inl e \<Rightarrow> []
               | Inr items1 \<Rightarrow> map Price items1)"
    using x1
    by (cases "xml_Decode_IntraDay w (Body r1)") (auto simp: extract_decoded extract_failed)
qed

lemma windows:
  "startDate two_day_window \<noteq> endDate two_day_window"
  "startDate one_day_window = endDate one_day_window"
  by (simp_all add: two_day_window_def one_day_window_def)

lemmas run_defs = getElectrictyPrices_def GetImPriceE_def sendRequest_def
  extractPricesFromGetImPriceE_def example_service_def example_host_def example_globals_def
  two_day_window_def one_day_window_def earlier_day_items_def later_day_items_def Let_def

theorem C4_fetch_plan_witness:
  "fetches_of (snd (getElectrictyPrices example_service example_globals one_day_window [])) =
     [(''2024-07-15'', ''2024-07-15'', ''11'', ''14'')]
   \<and> fetches_of (snd (getElectrictyPrices example_service example_globals two_day_window [])) =
     [(''2024-07-14'', ''2024-07-14'', ''23'', ''24''), (''2024-07-15'', ''2024-07-15'', ''0'', ''2'')]
   \<and> fst (getElectrictyPrices example_service example_globals two_day_window []) =
     [Finite 50, Finite 40, Finite 60]"
proof -
  let ?banner = "LogInfo ''------- Function Call: GetImPriceE vnitrodenna cena-------'' []"
  let ?r1 = "\<lparr>Status = ''200 OK'', Body = ''<earlier/>''\<rparr>"
  let ?r2 = "\<lparr>Status = ''200 OK'', Body = ''<later/>''\<rparr>"
  let ?first = "GetImPriceE example_service example_globals (startDate two_day_window)
      (startDate two_day_window) (startHour two_day_window) ''24'' ([] @ [?banner])"
  let ?x1 = "extractPricesFromGetImPriceE example_service ?r1 (snd ?first)"
  let ?tr3 = "case (None :: string option) of
                None \<Rightarrow> snd (snd ?x1)
              | Some e \<Rightarrow>
                  snd (snd ?x1) @ [LogInfo
                    ''Error getting prices from previous day, continuing on second.'' []]"
  let ?second = "GetImPriceE example_service example_globals (endDate two_day_window)
      (endDate two_day_window) ''0'' (endHour two_day_window) ?tr3"
  have first: "?first = (Some ?r1, snd ?first)"
    by (simp add: prod_eq_iff run_defs)
  have x1: "?x1 = (map Price earlier_day_items, None, snd (snd ?x1))"
    by (simp add: prod_eq_iff run_defs)
  have second: "?second = (Some ?r2, snd ?second)"
    by (simp add: prod_eq_iff run_defs)
  have d2: "xml_Decode_IntraDay example_service (Body ?r2) = Inr later_day_items"
    by (simp add: run_defs)
  note plan = C4_fetch_plan [of two_day_window example_service example_globals "[]"]
  have one: "fetches_of (snd (getElectrictyPrices example_service example_globals one_day_window [])) =
     [(''2024-07-15'', ''2024-07-15'', ''11'', ''14'')]"
    using C4_fetch_plan [of one_day_window example_service example_globals "[]", THEN conjunct1,
        THEN mp, OF windows(2)]
    by (simp add: one_day_window_def)
  have two: "fetches_of (snd (getElectrictyPrices example_service example_globals two_day_window [])) =
     [(''2024-07-14'', ''2024-07-14'', ''23'', ''24''), (''2024-07-15'', ''2024-07-15'', ''0'', ''2'')]"
    using plan [THEN conjunct2, THEN mp, THEN conjunct2, THEN conjunct1, THEN spec, THEN spec,
        THEN mp, OF windows(1) first]
    by (simp add: two_day_window_def)
  have series: "fst (getElectrictyPrices example_service example_globals two_day_window []) =
     [Finite 50, Finite 40, Finite 60]"
    using plan [THEN conjunct2, THEN mp, THEN conjunct2, THEN conjunct2, rule_format,
        OF windows(1) conjI [OF first conjI [OF x1 conjI [OF second d2]]], THEN conjunct1]
    by (simp add: earlier_day_items_def later_day_items_def)
  show ?thesis
    using one two series by blast
qed

text \<open>
  The claim as it was stated fails where the first call of a window over two days gets
  no response: here the service answers \<open>503\<close>, and one call is made, not two.
\<close>

theorem C4_counterexample:
  "startDate two_day_window \<noteq> endDate two_day_window
   \<and> fetches_of (snd (getElectrictyPrices
        (example_service\<lparr>client_Do :=
           (\<lambda>tr req. Inr \<lparr>Status = ''503 Service Unavailable'', Body = ''''\<rparr>)\<rparr>)
        example_globals two_day_window [])) =
     [(''2024-07-14'', ''2024-07-14'', ''23'', ''24'')]
   \<and> length (fetches_of (snd (getElectrictyPrices
        (example_service\<lparr>client_Do :=
           (\<lambda>tr req. Inr \<lparr>Status = ''503 Service Unavailable'', Body = ''''\<rparr>)\<rparr>)
        example_globals two_day_window []))) \<noteq> 2"
  by (simp add: run_defs)

text \<open>
  C3, as amended. For a window over two days: when the first call returns a response
  that does not decode, the orchestrator logs it and goes on with the second call, and
  the series is then the second day's prices if that call succeeds; when the first call
  returns no response at all, it stops there and returns an empty series without making
  the second call. When the second call returns no response or one that does not
  decode, and, for a window within one day, when the single call returns no response
  or one that does not decode, it returns an empty series.
\<close>

theorem C3_partial_failure_policy:
  "(startDate t \<noteq> endDate t \<longrightarrow>
      (\<forall>r1 tr1 e.
          GetImPriceE w g (startDate t) (startDate t) (startHour t) ''24''
            (tr @ [LogInfo ''------- Function Call: GetImPriceE vnitrodenna cena-------'' []]) =
          (Some r1, tr1)
          \<and> xml_Decode_IntraDay w (Body r1) = Inl e \<longrightarrow>
          LogInfo ''Error getting prices from previous day, continuing on second.'' []
            \<in> set (snd (getElectrictyPrices w g t tr))
          \<and> fetches_of (snd (getElectrictyPrices w g t tr)) =
              fetches_of tr @ [(startDate t, startDate t, startHour t, ''24''),
                               (endDate t, endDate t, ''0'', endHour t)]
          \<and> (\<forall>r2 tr4 items2.
                GetImPriceE w g (endDate t) (endDate t) ''0'' (endHour t)
                  (tr1 @ [LogError ''Error on unmarshaling xml: %s\<newline>'' [S e],
                          LogInfo
                            ''Error getting prices from previous day, continuing on second.''
                            []]) =
                (Some r2, tr4)
                \<and> xml_Decode_IntraDay w (Body r2) = Inr items2 \<longrightarrow>
                fst (getElectrictyPrices w g t tr) = map Price items2))
      \<and> (\<forall>tr1.
          GetImPriceE w g (startDate t) (startDate t) (startHour t) ''24''
            (tr @ [LogInfo ''------- Function Call: GetImPriceE vnitrodenna cena-------'' []]) =
          (None, tr1) \<longrightarrow>
          getElectrictyPrices w g t tr = ([], tr1 @ [LogError ''HTTP Error, exiting.'' []])
          \<and> fetches_of (snd (getElectrictyPrices w g t tr)) =
              fetches_of tr @ [(startDate t, startDate t, startHour t, ''24'')])
      \<and> (\<forall>r1 tr1 prices1 err1 tr2 h2 tr4.
          GetImPriceE w g (startDate t) (startDate t) (startHour t) ''24''
            (tr @ [LogInfo ''------- Function Call: GetImPriceE vnitrodenna cena-------'' []]) =
          (Some r1, tr1)
          \<and> extractPricesFromGetImPriceE w r1 tr1 = (prices1, err1, tr2)
          \<and> GetImPriceE w g (endDate t) (endDate t) ''0'' (endHour t)
               (case err1 of
                  None \<Rightarrow> tr2
                | Some e \<Rightarrow>
                    tr2 @ [LogInfo
                      ''Error getting prices from previous day, continuing on second.'' []]) =
             (h2, tr4)
          \<and> (h2 = None \<or> (\<exists>r2 e. h2 = Some r2 \<and> xml_Decode_IntraDay w (Body r2) = Inl e)) \<longrightarrow>
          fst (getElectrictyPrices w g t tr) = []))
   \<and> (startDate t = endDate t \<longrightarrow>
      (\<forall>h tr1.
          GetImPriceE w g (startDate t) (endDate t) (startHour t) (endHour t)
            (tr @ [LogInfo ''------- Function Call: GetImPriceE vnitrodenna cena-------'' []]) =
          (h, tr1)
          \<and> (h = None \<or> (\<exists>r e. h = Some r \<and> xml_Decode_IntraDay w (Body r) = Inl e)) \<longrightarrow>
          fst (getElectrictyPrices w g t tr) = []))"
proof (intro conjI impI allI)
  fix r1 tr1 e
  assume two: "startDate t \<noteq> endDate t"
    and a: "GetImPriceE w g (startDate t) (startDate t) (startHour t) ''24''
            (tr @ [LogInfo ''------- Function Call: GetImPriceE vnitrodenna cena-------'' []]) =
          (Some r1, tr1)
          \<and> xml_Decode_IntraDay w (Body r1) = Inl e"
  from a have first: "GetImPriceE w g (startDate t) (startDate t) (startHour t) ''24''
            (tr @ [LogInfo ''------- Function Call: GetImPriceE vnitrodenna cena-------'' []]) =
          (Some r1, tr1)"
    and d1: "xml_Decode_IntraDay w (Body r1) = Inl e"
    by blast+
  define tr3 where "tr3 = tr1 @ [LogError ''Error on unmarshaling xml: %s\<newline>'' [S e],
      LogInfo ''Error getting prices from previous day, continuing on second.'' []]"
  have x1: "extractPricesFromGetImPriceE w r1 tr1 =
      ([], Some e, tr1 @ [LogError ''Error on unmarshaling xml: %s\<newline>'' [S e]])"
    by (rule extract_failed [OF d1])
  obtain h2 tr4 where second: "GetImPriceE w g (endDate t) (endDate t) ''0'' (endHour t) tr3 =
      (h2, tr4)"
    by (cases "GetImPriceE w g (endDate t) (endDate t) ''0'' (endHour t) tr3") auto
  have second': "GetImPriceE w g (endDate t) (endDate t) ''0'' (endHour t)
      (case Some e of
         None \<Rightarrow> tr1 @ [LogError ''Error on unmarshaling xml: %s\<newline>'' [S e]]
       | Some e' \<Rightarrow>
           (tr1 @ [LogError ''Error on unmarshaling xml: %s\<newline>'' [S e]]) @
           [LogInfo ''Error getting prices from previous day, continuing on second.'' []]) =
      (h2, tr4)"
    using second by (simp add: tr3_def)
  note run = two_day_first_some [OF two first x1 second']
  have "LogInfo ''Error getting prices from previous day, continuing on second.'' [] \<in> set tr3"
    by (simp add: tr3_def)
  then have "LogInfo ''Error getting prices from previous day, continuing on second.'' [] \<in> set tr4"
    using GetImPriceE_trace [OF second] by blast
  then show "LogInfo ''Error getting prices from previous day, continuing on second.'' []
            \<in> set (snd (getElectrictyPrices w g t tr))"
    by (simp add: run split: option.splits sum.splits)
  show "fetches_of (snd (getElectrictyPrices w g t tr)) =
              fetches_of tr @ [(startDate t, startDate t, startHour t, ''24''),
                               (endDate t, endDate t, ''0'', endHour t)]"
    by (rule two_day_fetches_some [OF two first])
  fix r2 tr4' items2
  assume b: "GetImPriceE w g (endDate t) (endDate t) ''0'' (endHour t)
                  (tr1 @ [LogError ''Error on unmarshaling xml: %s\<newline>'' [S e],
                          LogInfo
                            ''Error getting prices from previous day, continuing on second.''
                            []]) =
                (Some r2, tr4')
                \<and> xml_Decode_IntraDay w (Body r2) = Inr items2"
  with second have "h2 = Some r2" and "xml_Decode_IntraDay w (Body r2) = Inr items2"
    by (simp_all add: tr3_def)
  then show "fst (getElectrictyPrices w g t tr) = map Price items2"
    by (simp add: run)
next
  fix tr1
  assume two: "startDate t \<noteq> endDate t"
    and first: "GetImPriceE w g (startDate t) (startDate t) (startHour t) ''24''
            (tr @ [LogInfo ''------- Function Call: GetImPriceE vnitrodenna cena-------'' []]) =
          (None, tr1)"
  show "getElectrictyPrices w g t tr = ([], tr1 @ [LogError ''HTTP Error, exiting.'' []])"
    by (rule two_day_first_none [OF two first])
  show "fetches_of (snd (getElectrictyPrices w g t tr)) =
              fetches_of tr @ [(startDate t, startDate t, startHour t, ''24'')]"
    by (rule two_day_fetches_none [OF two first])
next
  fix r1 tr1 prices1 err1 tr2 h2 tr4
  assume two: "startDate t \<noteq> endDate t"
    and a: "GetImPriceE w g (startDate t) (startDate t) (startHour t) ''24''
            (tr @ [LogInfo ''------- Function Call: GetImPriceE vnitrodenna cena-------'' []]) =
          (Some r1, tr1)
          \<and> extractPricesFromGetImPriceE w r1 tr1 = (prices1, err1, tr2)
          \<and> GetImPriceE w g (endDate t) (endDate t) ''0'' (endHour t)
               (case err1 of
                  None \<Rightarrow> tr2
                | Some e \<Rightarrow>
                    tr2 @ [LogInfo
                      ''Error getting prices from previous day, continuing on second.'' []]) =
             (h2, tr4)
          \<and> (h2 = None \<or> (\<exists>r2 e. h2 = Some r2 \<and> xml_Decode_IntraDay w (Body r2) = Inl e))"
  from a have first: "GetImPriceE w g (startDate t) (startDate t) (startHour t) ''24''
            (tr @ [LogInfo ''------- Function Call: GetImPriceE vnitrodenna cena-------'' []]) =
          (Some r1, tr1)"
    and x1: "extractPricesFromGetImPriceE w r1 tr1 = (prices1, err1, tr2)"
    and second: "GetImPriceE w g (endDate t) (endDate t) ''0'' (endHour t)
               (case err1 of
                  None \<Rightarrow> tr2
                | Some e \<Rightarrow>
                    tr2 @ [LogInfo
                      ''Error getting prices from previous day, continuing on second.'' []]) =
             (h2, tr4)"
    and failed: "h2 = None \<or> (\<exists>r2 e. h2 = Some r2 \<and> xml_Decode_IntraDay w (Body r2) = Inl e)"
    by blast+
  from failed show "fst (getElectrictyPrices w g t tr) = []"
    by (auto simp: two_day_first_some [OF two first x1 second])
next
  fix h tr1
  assume one: "startDate t = endDate t"
    and a: "GetImPriceE w g (startDate t) (endDate t) (startHour t) (endHour t)
            (tr @ [LogInfo ''------- Function Call: GetImPriceE vnitrodenna cena-------'' []]) =
          (h, tr1)
          \<and> (h = None \<or> (\<exists>r e. h = Some r \<and> xml_Decode_IntraDay w (Body r) = Inl e))"
  from a have run: "GetImPriceE w g (startDate t) (endDate t) (startHour t) (endHour t)
            (tr @ [LogInfo ''------- Function Call: GetImPriceE vnitrodenna cena-------'' []]) =
          (h, tr1)"
    and failed: "h = None \<or> (\<exists>r e. h = Some r \<and> xml_Decode_IntraDay w (Body r) = Inl e)"
    by blast+
  from failed show "fst (getElectrictyPrices w g t tr) = []"
    by (auto simp: single_day_run [OF one run])
qed
theorem C3_partial_failure_policy_witness:
  "fst (getElectrictyPrices
          (example_service\<lparr>xml_Decode_IntraDay :=
             (\<lambda>body. if body = ''<later/>'' then Inr later_day_items
                      else Inl ''invalid syntax'')\<rparr>)
          example_globals two_day_window []) = [Finite 60]
   \<and> LogInfo ''Error getting prices from previous day, continuing on second.'' []
       \<in> set (snd (getElectrictyPrices
          (example_service\<lparr>xml_Decode_IntraDay :=
             (\<lambda>body. if body = ''<later/>'' then Inr later_day_items
                      else Inl ''invalid syntax'')\<rparr>)
          example_globals two_day_window []))
   \<and> fst (getElectrictyPrices
          (example_service\<lparr>client_Do := (\<lambda>tr req. Inl ''connection refused'')\<rparr>)
          example_globals one_day_window []) = []"
proof -
  let ?banner = "LogInfo ''------- Function Call: GetImPriceE vnitrodenna cena-------'' []"
  let ?w = "example_service\<lparr>xml_Decode_IntraDay :=
             (\<lambda>body. if body = ''<later/>'' then Inr later_day_items
                      else Inl ''invalid syntax'')\<rparr>"
  let ?v = "example_service\<lparr>client_Do := (\<lambda>tr req. Inl ''connection refused'')\<rparr>"
  let ?r1 = "\<lparr>Status = ''200 OK'', Body = ''<earlier/>''\<rparr>"
  let ?r2 = "\<lparr>Status = ''200 OK'', Body = ''<later/>''\<rparr>"
  let ?first = "GetImPriceE ?w example_globals (startDate two_day_window)
      (startDate two_day_window) (startHour two_day_window) ''24'' ([] @ [?banner])"
  let ?second = "GetImPriceE ?w example_globals (endDate two_day_window)
      (endDate two_day_window) ''0'' (endHour two_day_window)
      (snd ?first @ [LogError ''Error on unmarshaling xml: %s\<newline>'' [S ''invalid syntax''],
         LogInfo ''Error getting prices from previous day, continuing on second.'' []])"
  let ?single = "GetImPriceE ?v example_globals (startDate one_day_window)
      (endDate one_day_window) (startHour one_day_window) (endHour one_day_window)
      ([] @ [?banner])"
  have first: "?first = (Some ?r1, snd ?first)"
    by (simp add: prod_eq_iff run_defs)
  have d1: "xml_Decode_IntraDay ?w (Body ?r1) = Inl ''invalid syntax''"
    by (simp add: run_defs)
  have second: "?second = (Some ?r2, snd ?second)"
    by (simp add: prod_eq_iff run_defs)
  have d2: "xml_Decode_IntraDay ?w (Body ?r2) = Inr later_day_items"
    by (simp add: run_defs)
  have single: "?single = (None, snd ?single)"
    by (simp add: prod_eq_iff run_defs)
  note policy = C3_partial_failure_policy [of two_day_window ?w example_globals "[]"]
  note continued = policy [THEN conjunct1, THEN mp, THEN conjunct1, rule_format,
      OF windows(1) conjI [OF first d1]]
  have series: "fst (getElectrictyPrices ?w example_globals two_day_window []) = [Finite 60]"
    using continued [THEN conjunct2, THEN conjunct2, rule_format, OF conjI [OF second d2]]
    by (simp add: later_day_items_def)
  have logged: "LogInfo ''Error getting prices from previous day, continuing on second.'' []
       \<in> set (snd (getElectrictyPrices ?w example_globals two_day_window []))"
    by (rule continued [THEN conjunct1])
  have aborted: "fst (getElectrictyPrices ?v example_globals one_day_window []) = []"
    by (rule C3_partial_failure_policy [of one_day_window ?v example_globals "[]",
          THEN conjunct2, THEN mp, rule_format, OF windows(2) conjI [OF single disjI1]])
       (rule refl)
  show ?thesis
    using series logged aborted by blast
qed

text \<open>
  The claim as it was stated fails where the first call gets no response: the
  orchestrator does not proceed. Here the first request times out and the service
  would have answered the second call, which is never made.
\<close>

theorem C3_counterexample:
  "startDate two_day_window \<noteq> endDate two_day_window
   \<and> getElectrictyPrices
        (example_service\<lparr>client_Do :=
           (\<lambda>tr req. if length (fetches_of tr) \<le> 1 then Inl ''timeout''
                     else Inr \<lparr>Status = ''200 OK'', Body = ''<later/>''\<rparr>)\<rparr>)
        example_globals two_day_window [] =
       ([],
        [LogInfo ''------- Function Call: GetImPriceE vnitrodenna cena-------'' [],
         CallGetImPriceE ''2024-07-14'' ''2024-07-14'' ''23'' ''24'',
         HttpPost \<lparr>reqMethod = ''POST'',
                   reqURL = ''https://www.ote-cr.cz/services/PublicDataService'',
                   reqContentType = ''text/xml'', reqSOAPAction = ''urn:GetImPriceE'',
                   reqBody = GetImPriceE_payload ''2024-07-14'' ''2024-07-14'' ''23'' ''24''\<rparr>,
         LogError ''Error on dispatching request: %s\<newline>'' [S ''timeout''],
         LogError ''HTTP Error, exiting.'' []])
   \<and> fst (GetImPriceE
        (example_service\<lparr>client_Do :=
           (\<lambda>tr req. if length (fetches_of tr) \<le> 1 then Inl ''timeout''
                     else Inr \<lparr>Status = ''200 OK'', Body = ''<later/>''\<rparr>)\<rparr>)
        example_globals ''2024-07-15'' ''2024-07-15'' ''0'' ''2''
        [LogInfo ''------- Function Call: GetImPriceE vnitrodenna cena-------'' [],
         CallGetImPriceE ''2024-07-14'' ''2024-07-14'' ''23'' ''24'']) =
       Some \<lparr>Status = ''200 OK'', Body = ''<later/>''\<rparr>"
  by (simp add: run_defs)

section \<open>The time window\<close>

lemmas civil_defs = civil_from_days_def civil_doe_def civil_yoe_def civil_doy_def civil_ymd_def

lemma format_date_tuple:
  "format_date (y, m, d) = zero_pad 4 y @ ''-'' @ zero_pad 2 m @ ''-'' @ zero_pad 2 d"
  by (simp add: format_date_def)

text \<open>
  C2 at concrete inputs. With \<open>HOURS\<close> unset the variable holds \<open>-3\<close>, the product
  with \<open>time.Hour\<close> is three hours, and at 14:00 on 2024-07-15 the window starts at 11
  on the same day. With \<open>HOURS=-3h\<close> the variable holds what \<open>time.ParseDuration\<close>
  returns, three hours in nanoseconds; the product with \<open>time.Hour\<close> wraps around in
  64 bits to about minus 13.6 years, and the window starts at 9 on 2010-11-29.
\<close>

theorem C2_HOURS_3h_run:
  "getEnvironmentVariables example_host [] = (example_globals, [])
   \<and> getTimeRange example_host example_globals [] =
       Inr (\<lparr>startDate = ''2024-07-15'', endDate = ''2024-07-15'',
             startHour = ''11'', endHour = ''14''\<rparr>, [])
   \<and> getEnvironmentVariables
        (example_host\<lparr>os_Getenv := (\<lambda>name. if name = ''HOURS'' then ''-3h'' else ''''),
                       time_ParseDuration :=
                         (\<lambda>s. if s = ''-3h'' then Inr (- 10800000000000)
                              else Inl ''time: invalid duration'')\<rparr>) [] =
       (\<lparr>hoursInThePast = - 10800000000000,
         wsdlService = ''https://www.ote-cr.cz/services/PublicDataService''\<rparr>, [])
   \<and> sint ((- 10800000000000 :: Duration) * time_Hour) = - 430027188864024576
   \<and> getTimeRange
        (example_host\<lparr>os_Getenv := (\<lambda>name. if name = ''HOURS'' then ''-3h'' else ''''),
                       time_ParseDuration :=
                         (\<lambda>s. if s = ''-3h'' then Inr (- 10800000000000)
                              else Inl ''time: invalid duration'')\<rparr>)
        \<lparr>hoursInThePast = - 10800000000000,
         wsdlService = ''https://www.ote-cr.cz/services/PublicDataService''\<rparr> [] =
       Inr (\<lparr>startDate = ''2010-11-29'', endDate = ''2024-07-15'',
             startHour = ''9'', endHour = ''14''\<rparr>, [])"
proof -
  have default_env: "getEnvironmentVariables example_host [] = (example_globals, [])"
    by (simp add: getEnvironmentVariables_def example_host_def example_globals_def)
  have set_env: "getEnvironmentVariables
        (example_host\<lparr>os_Getenv := (\<lambda>name. if name = ''HOURS'' then ''-3h'' else ''''),
                       time_ParseDuration :=
                         (\<lambda>s. if s = ''-3h'' then Inr (- 10800000000000)
                              else Inl ''time: invalid duration'')\<rparr>) [] =
       (\<lparr>hoursInThePast = - 10800000000000,
         wsdlService = ''https://www.ote-cr.cz/services/PublicDataService''\<rparr>, [])"
    by (simp add: getEnvironmentVariables_def example_host_def)
  have wrapped: "sint ((- 10800000000000 :: Duration) * time_Hour) = - 430027188864024576"
    by (simp add: time_Hour_def)
  have instants: "time_Add 1721044800000000000 (- 3 * time_Hour) = 1721034000000000000"
    "time_Add 1721044800000000000 (- 10800000000000 * time_Hour) = 1291017611135975424"
    by (simp_all add: time_Add_def time_Hour_def)
  have dates: "time_Date example_zone 1721044800000000000 = (2024, 7, 15)"
    "time_Date example_zone 1721034000000000000 = (2024, 7, 15)"
    "time_Date example_zone 1291017611135975424 = (2010, 11, 29)"
    by (simp_all add: time_Date_def local_seconds_def example_zone_def civil_defs)
  have hours: "time_HourOf example_zone 1721044800000000000 = 14"
    "time_HourOf example_zone 1721034000000000000 = 11"
    "time_HourOf example_zone 1291017611135975424 = 9"
    by (simp_all add: time_HourOf_def local_seconds_def example_zone_def)
  have texts: "format_date (2024, 7, 15) = ''2024-07-15''"
    "format_date (2010, 11, 29) = ''2010-11-29''"
    "itoa 14 = ''14''" "itoa 11 = ''11''" "itoa 9 = ''9''"
    by (simp_all add: format_date_tuple zero_pad_def itoa_def natstr.simps digit_char_def)
  have default_window: "getTimeRange example_host example_globals [] =
       Inr (\<lparr>startDate = ''2024-07-15'', endDate = ''2024-07-15'',
             startHour = ''11'', endHour = ''14''\<rparr>, [])"
    by (simp add: getTimeRange_def example_host_def example_globals_def time_Add_def time_Hour_def
        dates hours texts)
  have set_window: "getTimeRange
        (example_host\<lparr>os_Getenv := (\<lambda>name. if name = ''HOURS'' then ''-3h'' else ''''),
                       time_ParseDuration :=
                         (\<lambda>s. if s = ''-3h'' then Inr (- 10800000000000)
                              else Inl ''time: invalid duration'')\<rparr>)
        \<lparr>hoursInThePast = - 10800000000000,
         wsdlService = ''https://www.ote-cr.cz/services/PublicDataService''\<rparr> [] =
       Inr (\<lparr>startDate = ''2010-11-29'', endDate = ''2024-07-15'',
             startHour = ''9'', endHour = ''14''\<rparr>, [])"
    by (simp add: getTimeRange_def example_host_def time_Add_def time_Hour_def dates hours texts)
  show ?thesis
    using default_env default_window set_env wrapped set_window by blast
qed

end
